theory Spec2Isabelle
  imports Main "HOL-Library.Sublist" "HOL-Library.AList" "HOL-Library.Multiset"
begin

section \<open>Python strings\<close>

text \<open>
  A Python \<open>str\<close> is a sequence of Unicode code points, and \<open>len\<close> counts code
  points; a string is therefore a list of code points, each a natural number
  (\<open>ord\<close> of the character).  \<open>lit\<close> writes an ASCII literal.
\<close>

type_synonym pystr = "nat list"

definition lit :: "string \<Rightarrow> pystr" where
  "lit s = map of_char s"

text \<open>
  \<open>str.isspace\<close> of one character: the code points Python 3 treats as whitespace
  (\<open>str.strip()\<close> and \<open>str.split()\<close> without arguments use the same set).
\<close>

definition isspace :: "nat \<Rightarrow> bool" where
  "isspace c =
     ((9 \<le> c \<and> c \<le> 13) \<or> (28 \<le> c \<and> c \<le> 32) \<or> c = 133 \<or> c = 160 \<or> c = 5760
      \<or> (8192 \<le> c \<and> c \<le> 8202) \<or> c = 8232 \<or> c = 8233 \<or> c = 8239 \<or> c = 8287
      \<or> c = 12288)"

text \<open>\<open>s.strip()\<close>, \<open>s.strip(chars)\<close> and \<open>s.lstrip(chars)\<close>.\<close>

definition strip :: "pystr \<Rightarrow> pystr" where
  "strip s = rev (dropWhile isspace (rev (dropWhile isspace s)))"

definition strip_chars :: "pystr \<Rightarrow> pystr \<Rightarrow> pystr" where
  "strip_chars chars s =
     rev (dropWhile (\<lambda>c. c \<in> set chars) (rev (dropWhile (\<lambda>c. c \<in> set chars) s)))"

definition lstrip_chars :: "pystr \<Rightarrow> pystr \<Rightarrow> pystr" where
  "lstrip_chars chars s = dropWhile (\<lambda>c. c \<in> set chars) s"

text \<open>
  Slice indices: Python clamps an index to \<open>0 .. len\<close> after adding \<open>len\<close> to a
  negative one.  \<open>py_slice s i j\<close> is \<open>s[i:j]\<close>, \<open>py_upto s j\<close> is \<open>s[:j]\<close>.
\<close>

definition py_adjust :: "int \<Rightarrow> int \<Rightarrow> int" where
  "py_adjust n i = (if i < 0 then max 0 (n + i) else min i n)"

definition py_slice :: "'a list \<Rightarrow> int \<Rightarrow> int \<Rightarrow> 'a list" where
  "py_slice s i j =
     (let n = int (length s); a = py_adjust n i; b = py_adjust n j
      in take (nat (b - a)) (drop (nat a) s))"

definition py_upto :: "'a list \<Rightarrow> int \<Rightarrow> 'a list" where
  "py_upto s j = take (nat (py_adjust (int (length s)) j)) s"

text \<open>
  \<open>s.rfind(c, i, j)\<close> for a one-character needle: the highest index in the
  (adjusted) range that holds \<open>c\<close>, or \<open>-1\<close>.
\<close>

definition rfind_char :: "nat \<Rightarrow> pystr \<Rightarrow> int \<Rightarrow> int \<Rightarrow> int" where
  "rfind_char c s i j =
     (let n = int (length s); a = py_adjust n i; b = py_adjust n j
      in case filter (\<lambda>k. s ! k = c) (rev [nat a ..< nat b]) of
           [] \<Rightarrow> - 1
         | k # _ \<Rightarrow> int k)"

text \<open>\<open>sub in s\<close>: substring test.\<close>

fun str_in :: "pystr \<Rightarrow> pystr \<Rightarrow> bool" where
  "str_in sub [] = (sub = [])"
| "str_in sub (c # cs) = (prefix sub (c # cs) \<or> str_in sub cs)"

text \<open>\<open>s.split()\<close>: the maximal runs of non-whitespace characters.\<close>

fun split_ws_from :: "pystr \<Rightarrow> pystr \<Rightarrow> pystr list" where
  "split_ws_from cur [] = (if cur = [] then [] else [cur])"
| "split_ws_from cur (c # cs) =
     (if isspace c then (if cur = [] then split_ws_from [] cs else cur # split_ws_from [] cs)
      else split_ws_from (cur @ [c]) cs)"

definition split_ws :: "pystr \<Rightarrow> pystr list" where
  "split_ws s = split_ws_from [] s"

text \<open>
  \<open>s.split(sep)\<close> for a non-empty separator, scanning left to right; \<open>skip\<close>
  counts the characters of a separator just matched that are still to be passed over.
  \<open>s.split(sep, maxsplit)\<close> stops cutting after \<open>maxsplit\<close> cuts.
\<close>

fun split_from :: "pystr \<Rightarrow> nat \<Rightarrow> pystr \<Rightarrow> pystr \<Rightarrow> pystr list" where
  "split_from sep skip cur [] = [cur]"
| "split_from sep skip cur (c # cs) =
     (if 0 < skip then split_from sep (skip - 1) cur cs
      else if prefix sep (c # cs) then cur # split_from sep (length sep - 1) [] cs
      else split_from sep 0 (cur @ [c]) cs)"

definition split_sep :: "pystr \<Rightarrow> pystr \<Rightarrow> pystr list" where
  "split_sep sep s = split_from sep 0 [] s"

fun split_max_from :: "pystr \<Rightarrow> nat \<Rightarrow> nat \<Rightarrow> pystr \<Rightarrow> pystr \<Rightarrow> pystr list" where
  "split_max_from sep m skip cur [] = [cur]"
| "split_max_from sep m skip cur (c # cs) =
     (if 0 < skip then split_max_from sep m (skip - 1) cur cs
      else if 0 < m \<and> prefix sep (c # cs)
        then cur # split_max_from sep (m - 1) (length sep - 1) [] cs
      else split_max_from sep m 0 (cur @ [c]) cs)"

definition split_sep_max :: "pystr \<Rightarrow> nat \<Rightarrow> pystr \<Rightarrow> pystr list" where
  "split_sep_max sep m s = split_max_from sep m 0 [] s"

text \<open>\<open>sep.join(parts)\<close>.\<close>

fun join :: "pystr \<Rightarrow> pystr list \<Rightarrow> pystr" where
  "join sep [] = []"
| "join sep [p] = p"
| "join sep (p # q # ps) = p @ sep @ join sep (q # ps)"

text \<open>\<open>str(n)\<close> for a non-negative integer, as the f-strings render counts.\<close>

fun digits_of :: "nat \<Rightarrow> nat \<Rightarrow> pystr" where
  "digits_of 0 n = []"
| "digits_of (Suc fuel) n =
     (if n < 10 then [48 + n] else digits_of fuel (n div 10) @ [48 + n mod 10])"

definition str_of_nat :: "nat \<Rightarrow> pystr" where
  "str_of_nat n = digits_of (Suc n) n"

text \<open>
  \<open>str.lower\<close> applies Unicode's case tables, which are not part of the repository:
  every function that lowercases takes \<open>lower\<close> as a parameter, and the theorems hold
  for every such function.  \<open>ascii_lower\<close> is its restriction to ASCII text, used to
  run the model on concrete inputs.
\<close>

definition ascii_lower :: "pystr \<Rightarrow> pystr" where
  "ascii_lower s = map (\<lambda>c. if 65 \<le> c \<and> c \<le> 90 then c + 32 else c) s"

section \<open>Settings\<close>

text \<open>The fields of \<open>config.Settings\<close> that the services read.\<close>

record settings =
  chunk_size :: int
  chunk_overlap :: int
  max_file_size :: int
  allowed_extensions :: pystr
  data_dir :: pystr
  uploads_dir :: pystr

definition default_settings :: settings where
  "default_settings =
     \<lparr>chunk_size = 1000, chunk_overlap = 200, max_file_size = 10485760,
      allowed_extensions = lit ''pdf,txt,docx,md'',
      data_dir = lit ''/app/data'', uploads_dir = lit ''/app/data/uploads''\<rparr>"

definition allowed_extensions_list :: "settings \<Rightarrow> pystr list" where
  "allowed_extensions_list S = map strip (split_sep (lit '','') (allowed_extensions S))"

section \<open>Text chunker\<close>

text \<open>
  The \<open>while\<close> loop of \<open>_split_text_into_chunks\<close>, from the loop variables
  \<open>chunks\<close> and \<open>start\<close>.  Whether it is left depends on the text and on the
  settings, so the loop is a partial function: \<open>None\<close> is the loop that never returns.
\<close>

partial_function (option) chunk_loop ::
  "int \<Rightarrow> int \<Rightarrow> pystr \<Rightarrow> pystr list \<Rightarrow> int \<Rightarrow> pystr list option" where
  "chunk_loop csize coverlap text chunks start =
     (if start < int (length text) then
        let end0 = start + csize;
            end1 = (if end0 < int (length text) then
                      let last_period = rfind_char 46 text start end0
                      in if last_period \<noteq> - 1 \<and> last_period > start + csize div 2
                         then last_period + 1 else end0
                    else end0);
            chunk = strip (py_slice text start end1);
            chunks' = (if chunk \<noteq> [] then chunks @ [chunk] else chunks);
            start' = end1 - coverlap
        in if start' \<ge> int (length text) then Some chunks'
           else chunk_loop csize coverlap text chunks' start'
      else Some chunks)"

declare chunk_loop.simps [code]

text \<open>\<open>SimpleDocumentStore._split_text_into_chunks\<close>.\<close>

definition split_text_into_chunks :: "settings \<Rightarrow> pystr \<Rightarrow> pystr list option" where
  "split_text_into_chunks S text =
     (if int (length text) \<le> chunk_size S then Some [text]
      else chunk_loop (chunk_size S) (chunk_overlap S) text [] 0)"

text \<open>
  \<open>DocumentProcessor.split_text_into_chunks\<close>: the same loop, with optional sizes;
  \<open>x or default\<close> also takes the default when \<open>x\<close> is \<open>0\<close>.
\<close>

definition or_default :: "int option \<Rightarrow> int \<Rightarrow> int" where
  "or_default x d = (case x of None \<Rightarrow> d | Some v \<Rightarrow> if v = 0 then d else v)"

definition processor_split_text_into_chunks ::
  "settings \<Rightarrow> pystr \<Rightarrow> int option \<Rightarrow> int option \<Rightarrow> pystr list option" where
  "processor_split_text_into_chunks S text csize coverlap =
     (let csize' = or_default csize (chunk_size S);
          coverlap' = or_default coverlap (chunk_overlap S)
      in if int (length text) \<le> csize' then Some [text]
         else chunk_loop csize' coverlap' text [] 0)"


section \<open>Keyword extractor\<close>

text \<open>
  The stop words of \<open>_extract_keywords\<close> (the first thirteen are Chinese function
  words, given by their code points) and the punctuation that is stripped from a word.
\<close>

definition stop_words :: "pystr list" where
  "stop_words =
     [[30340], [26159], [22312], [26377], [21644], [19982], [25110], [20294],
      [28982, 21518], [22914, 20309], [20160, 20040], [24590, 20040], [24590, 26679],
      lit ''how'', lit ''to'', lit ''what'', lit ''is'', lit ''are'', lit ''the'', lit ''a'',
      lit ''an'', lit ''and'', lit ''or'', lit ''but'', lit ''then'']"

definition punctuation :: pystr where
  "punctuation = lit ''.,!?;:()[]{}'' @ [34, 39, 45]"

text \<open>The loop over \<open>query.split()\<close>; the keywords are appended in the order met.\<close>

fun keywords_of_words :: "(pystr \<Rightarrow> pystr) \<Rightarrow> pystr list \<Rightarrow> pystr list" where
  "keywords_of_words lower [] = []"
| "keywords_of_words lower (w # ws) =
     (let word = strip_chars punctuation w
      in if length word \<ge> 2 \<and> lower word \<notin> set stop_words
         then lower word # keywords_of_words lower ws
         else keywords_of_words lower ws)"

definition extract_keywords :: "(pystr \<Rightarrow> pystr) \<Rightarrow> pystr \<Rightarrow> pystr list" where
  "extract_keywords lower query = keywords_of_words lower (split_ws query)"

section \<open>Files and the document index\<close>

text \<open>
  A path names a file by its string.  Three kinds of entry are told apart by what the
  services can do with them: a regular text file can be read, overwritten and removed;
  an undecodable file exists, but reading it raises; a directory exists, but reading,
  overwriting and removing it all raise.  An absent path has no entry; writing to it
  creates the file (the uploads and markdown directories exist: the services create
  them when they start).
\<close>

datatype file_entry = Regular pystr | Undecodable | Directory

type_synonym filesystem = "pystr \<rightharpoonup> file_entry"

datatype error =
    ValueError pystr
  | OSError
  | ExtractionError
  | StoreError

definition os_path_exists :: "filesystem \<Rightarrow> pystr \<Rightarrow> bool" where
  "os_path_exists fs p = (fs p \<noteq> None)"

text \<open>\<open>open(p, 'r').read()\<close>, \<open>open(p, 'w').write(c)\<close> and \<open>os.remove(p)\<close>.\<close>

definition read_file :: "filesystem \<Rightarrow> pystr \<Rightarrow> error + pystr" where
  "read_file fs p = (case fs p of Some (Regular c) \<Rightarrow> Inr c | _ \<Rightarrow> Inl OSError)"

definition write_file :: "filesystem \<Rightarrow> pystr \<Rightarrow> pystr \<Rightarrow> error + filesystem" where
  "write_file fs p c =
     (case fs p of Some Directory \<Rightarrow> Inl OSError | _ \<Rightarrow> Inr (fs(p \<mapsto> Regular c)))"

definition os_remove :: "filesystem \<Rightarrow> pystr \<Rightarrow> error + filesystem" where
  "os_remove fs p =
     (case fs p of
        None \<Rightarrow> Inl OSError
      | Some Directory \<Rightarrow> Inl OSError
      | Some _ \<Rightarrow> Inr (fs(p := None)))"

text \<open>\<open>os.path.join\<close> of two components (POSIX).\<close>

definition os_path_join :: "pystr \<Rightarrow> pystr \<Rightarrow> pystr" where
  "os_path_join a b =
     (if prefix (lit ''/'') b then b
      else if a = [] \<or> suffix (lit ''/'') a then a @ b
      else a @ lit ''/'' @ b)"

text \<open>
  The metadata that \<open>RAGService.upload_document\<close> attaches to a document, and the
  record that \<open>add_document\<close> stores in the index under the document id.
\<close>

record upload_metadata =
  md_source :: pystr
  md_file_path :: pystr
  md_upload_time :: pystr
  md_file_size :: nat

record doc_info =
  filename :: pystr
  markdown_file :: pystr
  upload_time :: pystr
  content_length :: nat
  chunks_count :: nat
  metadata :: upload_metadata

text \<open>
  The state of a \<open>SimpleDocumentStore\<close>: the index in memory (a dict, in insertion
  order), the files on disk, and the index as last written to \<open>documents.json\<close>
  together with whether that file can be written.
\<close>

record store =
  documents_index :: "(pystr \<times> doc_info) list"
  files :: filesystem
  documents_file :: "(pystr \<times> doc_info) list"
  documents_file_writable :: bool

definition markdown_dir :: "settings \<Rightarrow> pystr" where
  "markdown_dir S = os_path_join (data_dir S) (lit ''markdown'')"

text \<open>\<open>_save_documents_index\<close>: a failed write is printed and otherwise ignored.\<close>

definition save_documents_index :: "store \<Rightarrow> store" where
  "save_documents_index st =
     (if documents_file_writable st then st\<lparr>documents_file := documents_index st\<rparr> else st)"

section \<open>Adding a document\<close>

fun chunk_sections :: "nat \<Rightarrow> pystr list \<Rightarrow> pystr" where
  "chunk_sections i [] = []"
| "chunk_sections i (chunk # chunks) =
     lit ''### '' @ [20998, 22359] @ lit '' '' @ str_of_nat (i + 1) @ [10, 10] @ chunk
       @ [10, 10] @ lit ''---'' @ [10, 10] @ chunk_sections (i + 1) chunks"

definition render_markdown ::
  "pystr \<Rightarrow> pystr \<Rightarrow> pystr \<Rightarrow> pystr \<Rightarrow> pystr list \<Rightarrow> pystr" where
  "render_markdown fname document_id now content chunks =
     lit ''# '' @ fname
     @ [10, 10] @ lit ''**'' @ [25991, 26723] @ lit ''ID**: '' @ document_id
     @ [10] @ lit ''**'' @ [19978, 20256, 26102, 38388] @ lit ''**: '' @ now
     @ [10] @ lit ''**'' @ [25991, 20214, 22823, 23567] @ lit ''**: ''
     @ str_of_nat (length content)
     @ lit '' '' @ [23383, 31526, 10] @ lit ''**'' @ [20998, 22359, 25968, 37327] @ lit ''**: ''
     @ str_of_nat (length chunks)
     @ [10, 10] @ lit ''---'' @ [10, 10] @ content
     @ [10, 10] @ lit ''---'' @ [10, 10] @ lit ''## '' @ [25991, 26723, 20998, 22359, 10, 10]
     @ chunk_sections 0 chunks"

text \<open>
  \<open>add_document\<close>.  \<open>now_rendered\<close> and \<open>now_indexed\<close> are the two readings of
  \<open>datetime.now().isoformat()\<close>.  The result is \<open>None\<close> when the chunker never
  returns; an exception of the write is caught and reported as \<open>False\<close>.
\<close>

definition add_document ::
  "settings \<Rightarrow> store \<Rightarrow> pystr \<Rightarrow> pystr \<Rightarrow> pystr \<Rightarrow> upload_metadata \<Rightarrow> pystr \<Rightarrow> pystr
     \<Rightarrow> (bool \<times> store) option" where
  "add_document S st document_id fname content md now_rendered now_indexed =
     (case split_text_into_chunks S content of
        None \<Rightarrow> None
      | Some chunks \<Rightarrow>
          (let mfile = os_path_join (markdown_dir S) (document_id @ lit ''.md'');
               markdown_content = render_markdown fname document_id now_rendered content chunks
           in (case write_file (files st) mfile markdown_content of
                 Inl e \<Rightarrow> Some (False, st)
               | Inr fs' \<Rightarrow>
                   Some (True, save_documents_index
                     (st\<lparr>files := fs',
                         documents_index :=
                           AList.update document_id
                             \<lparr>filename = fname, markdown_file = mfile,
                              upload_time = now_indexed, content_length = length content,
                              chunks_count = length chunks, metadata = md\<rparr>
                             (documents_index st)\<rparr>)))))"

section \<open>Search\<close>

text \<open>What \<open>search_documents\<close> emits for a document.\<close>

record result_metadata =
  document_id :: pystr
  source :: pystr
  result_upload_time :: pystr

record search_result =
  content :: pystr
  result_metadata :: result_metadata
  score :: int

text \<open>
  The scoring loop: \<open>score\<close> starts at \<open>0\<close>, gains \<open>10\<close> for the exact phrase, and
  the loop over \<open>query_keywords\<close> adds \<open>3\<close> for each keyword found in the content.
\<close>

fun keyword_matching :: "int \<Rightarrow> pystr list \<Rightarrow> pystr \<Rightarrow> int" where
  "keyword_matching sc [] content_lower = sc"
| "keyword_matching sc (keyword # keywords) content_lower =
     keyword_matching (if str_in keyword content_lower then sc + 3 else sc)
       keywords content_lower"

definition document_score :: "pystr \<Rightarrow> pystr list \<Rightarrow> pystr \<Rightarrow> int" where
  "document_score query_lower query_keywords content_lower =
     keyword_matching (if str_in query_lower content_lower then 0 + 10 else 0)
       query_keywords content_lower"

text \<open>\<open>sum(1 for keyword in query_keywords if keyword in s)\<close>.\<close>

definition count_matches :: "pystr list \<Rightarrow> pystr \<Rightarrow> nat" where
  "count_matches query_keywords s = length (filter (\<lambda>keyword. str_in keyword s) query_keywords)"

text \<open>\<open>s[:n] + "..." if len(s) > n else s\<close>.\<close>

definition ellipsis :: "nat \<Rightarrow> pystr \<Rightarrow> pystr" where
  "ellipsis n s = (if length s > n then take n s @ lit ''...'' else s)"

text \<open>
  The loop over \<open>enumerate(lines)\<close>: the context kept for line \<open>i\<close>, if the line
  matches and its context is meaningful.
\<close>

definition line_matches :: "(pystr \<Rightarrow> pystr) \<Rightarrow> pystr \<Rightarrow> pystr list \<Rightarrow> pystr \<Rightarrow> bool" where
  "line_matches lower query_lower query_keywords line =
     (let line_lower = lower line
      in if str_in query_lower line_lower then True
         else let matches = count_matches query_keywords line_lower
              in matches \<ge> 2 \<or> (matches \<ge> 1 \<and> length query_keywords \<le> 2))"

text \<open>
  The context of line \<open>i\<close>: \<open>lines[max(0, i - 3) : min(len(lines), i + 4)]\<close>, joined
  and stripped (on natural numbers \<open>i - 3\<close> is \<open>0\<close> when \<open>i < 3\<close>).
\<close>

definition line_context :: "pystr list \<Rightarrow> nat \<Rightarrow> pystr" where
  "line_context lines i =
     (let start_idx = i - 3;
          end_idx = min (length lines) (i + 4)
      in strip (join [10] (take (end_idx - start_idx) (drop start_idx lines))))"

definition line_chunk ::
  "(pystr \<Rightarrow> pystr) \<Rightarrow> pystr \<Rightarrow> pystr list \<Rightarrow> pystr list \<Rightarrow> nat \<Rightarrow> pystr option" where
  "line_chunk lower query_lower query_keywords lines i =
     (if line_matches lower query_lower query_keywords (lines ! i) then
        let context = line_context lines i
        in if context \<noteq> [] \<and> length context > 10 then Some (ellipsis 400 context) else None
      else None)"

definition line_chunks ::
  "(pystr \<Rightarrow> pystr) \<Rightarrow> pystr \<Rightarrow> pystr list \<Rightarrow> pystr \<Rightarrow> pystr list" where
  "line_chunks lower query_lower query_keywords doc =
     (let lines = split_sep [10] doc
      in List.map_filter (line_chunk lower query_lower query_keywords lines) [0 ..< length lines])"

text \<open>The fallback over the sections between blank lines.\<close>

definition section_chunks :: "(pystr \<Rightarrow> pystr) \<Rightarrow> pystr list \<Rightarrow> pystr \<Rightarrow> pystr list" where
  "section_chunks lower query_keywords doc =
     map (ellipsis 400)
       (filter (\<lambda>sec. count_matches query_keywords (lower sec) \<ge> 1) (split_sep [10, 10] doc))"

definition relevant_chunks ::
  "(pystr \<Rightarrow> pystr) \<Rightarrow> pystr \<Rightarrow> pystr list \<Rightarrow> pystr \<Rightarrow> pystr list" where
  "relevant_chunks lower query_lower query_keywords doc =
     (let chunks = line_chunks lower query_lower query_keywords doc
      in if chunks = [] then section_chunks lower query_keywords doc else chunks)"

text \<open>
  One pass of the loop over \<open>documents_index.items()\<close>: the result appended for the
  document, or \<open>None\<close> when the pass ends without one (a missing file, an exception
  while reading, a zero score, or no relevant content).
\<close>

definition search_document ::
  "(pystr \<Rightarrow> pystr) \<Rightarrow> filesystem \<Rightarrow> pystr \<Rightarrow> pystr list \<Rightarrow> pystr \<times> doc_info
     \<Rightarrow> search_result option" where
  "search_document lower fs query_lower query_keywords item =
     (let doc_id = fst item; info = snd item; mfile = markdown_file info
      in if \<not> os_path_exists fs mfile then None
         else
           (case read_file fs mfile of
              Inl e \<Rightarrow> None
            | Inr doc \<Rightarrow>
                (let sc = document_score query_lower query_keywords (lower doc)
                 in if sc > 0 then
                      (let chunks = relevant_chunks lower query_lower query_keywords doc
                       in if chunks \<noteq> [] then
                            Some \<lparr>content = join [10, 10] (take 3 chunks),
                                  result_metadata =
                                    \<lparr>document_id = doc_id, source = filename info,
                                     result_upload_time = upload_time info\<rparr>,
                                  score = sc\<rparr>
                          else None)
                    else None)))"

text \<open>The results in the order they are appended, before sorting.\<close>

definition emitted_results :: "(pystr \<Rightarrow> pystr) \<Rightarrow> store \<Rightarrow> pystr \<Rightarrow> search_result list" where
  "emitted_results lower st query =
     (let query_lower = lower query;
          query_keywords = extract_keywords lower query_lower
      in List.map_filter (search_document lower (files st) query_lower query_keywords)
           (documents_index st))"

text \<open>
  \<open>results.sort(key=lambda x: x["score"], reverse=True)\<close>: a stable sort, by
  descending score; results of equal score keep their order.
\<close>

definition sort_by_score :: "search_result list \<Rightarrow> search_result list" where
  "sort_by_score results = sort_key (\<lambda>r. - score r) results"

text \<open>\<open>search_documents\<close>, with the store it leaves behind.\<close>

definition search_documents ::
  "(pystr \<Rightarrow> pystr) \<Rightarrow> store \<Rightarrow> pystr \<Rightarrow> int \<Rightarrow> search_result list \<times> store" where
  "search_documents lower st query max_results =
     (py_upto (sort_by_score (emitted_results lower st query)) max_results, st)"

section \<open>Listing and deleting\<close>

record listed_document =
  listed_id :: pystr
  listed_content :: pystr
  listed_metadata :: doc_info

text \<open>
  One pass of the loop of \<open>get_all_documents\<close>: the preview is the text between the
  first two \<open>---\<close> markers; a document whose file exists but cannot be read is skipped.
\<close>

definition list_document :: "filesystem \<Rightarrow> pystr \<times> doc_info \<Rightarrow> listed_document option" where
  "list_document fs item =
     (let doc_id = fst item; info = snd item; mfile = markdown_file info
      in if os_path_exists fs mfile then
           (case read_file fs mfile of
              Inl e \<Rightarrow> None
            | Inr doc \<Rightarrow>
                (let parts = split_sep_max (lit ''---'') 2 doc;
                     content_preview =
                       (if length parts > 2 then ellipsis 500 (strip (parts ! 1)) else [])
                 in Some \<lparr>listed_id = doc_id, listed_content = content_preview,
                          listed_metadata = info\<rparr>))
         else Some \<lparr>listed_id = doc_id, listed_content = [], listed_metadata = info\<rparr>)"

definition get_all_documents :: "store \<Rightarrow> listed_document list \<times> store" where
  "get_all_documents st = (List.map_filter (list_document (files st)) (documents_index st), st)"

text \<open>
  \<open>delete_document\<close>: an exception of \<open>os.remove\<close> is caught and reported as
  \<open>False\<close>, before the index is touched.
\<close>

definition delete_document :: "store \<Rightarrow> pystr \<Rightarrow> bool \<times> store" where
  "delete_document st doc_id =
     (case map_of (documents_index st) doc_id of
        None \<Rightarrow> (False, st)
      | Some info \<Rightarrow>
          (let mfile = markdown_file info
           in (case (if os_path_exists (files st) mfile then os_remove (files st) mfile
                     else Inr (files st)) of
                 Inl e \<Rightarrow> (False, st)
               | Inr fs' \<Rightarrow>
                   (True, save_documents_index
                     (st\<lparr>files := fs',
                         documents_index := AList.delete doc_id (documents_index st)\<rparr>)))))"

text \<open>\<open>get_store_stats\<close>: the number of documents and the sum of their chunk counts.\<close>

definition get_store_stats :: "store \<Rightarrow> nat \<times> nat" where
  "get_store_stats st =
     (length (documents_index st), sum_list (map (\<lambda>item. chunks_count (snd item)) (documents_index st)))"

section \<open>Answer generation\<close>

text \<open>
  The state of an \<open>AzureAIService\<close>: the chat client, if one is configured, and the
  requests sent to it so far.  The client is external: it maps the system message, the
  prompt and the token limit to an answer (\<open>Inr\<close>) or to the text of the exception it
  raises (\<open>Inl\<close>).
\<close>

record azure_ai =
  openai_client :: "(pystr \<Rightarrow> pystr \<Rightarrow> int \<Rightarrow> pystr + pystr) option"
  requests :: "(pystr \<times> int) list"

definition no_information_message :: pystr where
  "no_information_message =
     lit ''Based on your uploaded documents, I cannot find relevant information ''
     @ lit ''to answer your question. Please ensure the relevant content has been ''
     @ lit ''uploaded to the knowledge base.''"

definition system_message :: pystr where
  "system_message =
     lit ''You are a Virtual Mentor, a knowledge base assistant. Please answer ''
     @ lit ''questions in English only, based on the provided context. Be helpful, ''
     @ lit ''clear, and professional.''"

text \<open>
  \<open>_prepare_context\<close>: the loop over \<open>enumerate(documents, 1)\<close>.  The documents are
  the results of the search, so every one has a content and a source.
\<close>

fun context_parts :: "nat \<Rightarrow> search_result list \<Rightarrow> pystr list" where
  "context_parts i [] = []"
| "context_parts i (doc # docs) =
     (let c = strip (content doc);
          src = source (result_metadata doc)
      in if c \<noteq> []
         then (lit ''['' @ [26469, 28304] @ lit '' '' @ str_of_nat i @ lit '': '' @ src
                 @ lit '']'' @ [10] @ c) # context_parts (i + 1) docs
         else context_parts (i + 1) docs)"

definition prepare_context :: "search_result list \<Rightarrow> pystr" where
  "prepare_context documents =
     (if documents = [] then [] else join [10, 10] (context_parts 1 documents))"

definition create_rag_prompt :: "pystr \<Rightarrow> pystr \<Rightarrow> pystr" where
  "create_rag_prompt query context =
     (if context = [] \<or> strip context = [] then []
      else
       lit ''You are Virtual Mentor, a knowledge base assistant. Please answer the ''
       @ lit ''user'' @ [39]
       @ lit ''s question strictly based on the provided context information.'' @ [10, 10]
       @ lit ''Important rules:'' @ [10]
       @ lit ''1. Only use the provided context information to answer questions'' @ [10]
       @ lit ''2. Do not use your pre-trained knowledge to answer'' @ [10]
       @ lit ''3. If there is no relevant information in the context, clearly state '' @ [34]
       @ lit ''Based on the provided documents, I cannot find relevant information to ''
       @ lit ''answer this question'' @ [34, 10]
       @ lit ''4. When answering, please indicate which source the information comes ''
       @ lit ''from'' @ [10] @ lit ''5. Answer in English only'' @ [10]
       @ lit ''6. Be helpful, clear, and professional in your responses'' @ [10]
       @ lit ''7. You may quote code examples or technical content exactly as it ''
       @ lit ''appears in the documents'' @ [10, 10] @ lit ''Context information:'' @ [10]
       @ context
       @ [10, 10] @ lit ''User question: '' @ query
       @ [10, 10] @ lit ''Please answer based on the above context information:'')"

definition mock_response :: "pystr \<Rightarrow> pystr \<Rightarrow> pystr" where
  "mock_response query context =
     lit ''Virtual Mentor - Mock Response for development:'' @ [10, 10] @ lit ''Query: ''
     @ query @ [10, 10]
     @ lit ''Based on the available context, this is a simulated response. In a ''
     @ lit ''production environment, this would be generated by Azure AI Foundry or ''
     @ lit ''Azure OpenAI.'' @ [10, 10] @ lit ''Context summary: ''
     @ str_of_nat (length context)
     @ lit '' characters of context were provided.'' @ [10, 10]
     @ lit ''To enable real AI responses, please configure your Azure AI ''
     @ lit ''credentials in the .env file.''"

text \<open>
  \<open>_generate_with_openai\<close>: the one place that calls the client; the call is recorded.
  \<open>Inl\<close> carries the message of the exception raised.
\<close>

definition generate_with_openai ::
  "azure_ai \<Rightarrow> (pystr \<Rightarrow> pystr \<Rightarrow> int \<Rightarrow> pystr + pystr) \<Rightarrow> pystr \<Rightarrow> int
     \<Rightarrow> (pystr + pystr) \<times> azure_ai" where
  "generate_with_openai ai client prompt max_tokens =
     (case client system_message prompt max_tokens of
        Inl msg \<Rightarrow> Inl (lit ''Azure OpenAI API error: '' @ msg)
      | Inr answer \<Rightarrow> Inr answer,
      ai\<lparr>requests := requests ai @ [(prompt, max_tokens)]\<rparr>)"

definition generate_response ::
  "azure_ai \<Rightarrow> pystr \<Rightarrow> search_result list \<Rightarrow> int \<Rightarrow> pystr \<times> azure_ai" where
  "generate_response ai query context_documents max_tokens =
     (let context = prepare_context context_documents
      in if context = [] \<or> strip context = [] then (no_information_message, ai)
         else
           let prompt = create_rag_prompt query context
           in case openai_client ai of
                Some client \<Rightarrow>
                  (case generate_with_openai ai client prompt max_tokens of
                     (Inr answer, ai') \<Rightarrow> (answer, ai')
                   | (Inl msg, ai') \<Rightarrow>
                       (lit ''Sorry, an error occurred while generating the response: '' @ msg,
                        ai'))
              | None \<Rightarrow> (mock_response query context, ai))"

definition summarize_document :: "azure_ai \<Rightarrow> pystr \<Rightarrow> nat \<Rightarrow> pystr \<times> azure_ai" where
  "summarize_document ai doc max_length =
     (let prompt =
            lit ''Please provide a concise summary of the following text in no more than ''
            @ str_of_nat max_length @ lit '' words:'' @ [10, 10] @ take 2000 doc
            @ lit ''  # Limit input text to avoid token limits'' @ [10, 10] @ lit ''Summary:''
      in case openai_client ai of
           Some client \<Rightarrow>
             (case generate_with_openai ai client prompt (int max_length) of
                (Inr answer, ai') \<Rightarrow> (answer, ai')
              | (Inl msg, ai') \<Rightarrow>
                  (lit ''Summary unavailable. Document length: '' @ str_of_nat (length doc)
                     @ lit '' characters.'', ai'))
         | None \<Rightarrow>
             (lit ''Document summary (mock): This document contains approximately ''
                @ str_of_nat (length (split_ws doc)) @ lit '' words.'', ai))"

section \<open>Document processor\<close>

text \<open>\<open>Path(p).suffix\<close> (POSIX): the last dot of the final path component and what
  follows it, unless that dot is the first or the last character of the component.\<close>

definition path_name :: "pystr \<Rightarrow> pystr" where
  "path_name p =
     (case filter (\<lambda>c. c \<noteq> [] \<and> c \<noteq> lit ''.'') (split_sep (lit ''/'') p) of
        [] \<Rightarrow> []
      | c # cs \<Rightarrow> last (c # cs))"

definition path_suffix :: "pystr \<Rightarrow> pystr" where
  "path_suffix p =
     (let name = path_name p;
          i = rfind_char 46 name 0 (int (length name))
      in if 0 < i \<and> i < int (length name) - 1 then drop (nat i) name else [])"

definition str_of_int :: "int \<Rightarrow> pystr" where
  "str_of_int i = (if i < 0 then 45 # str_of_nat (nat (- i)) else str_of_nat (nat i))"

text \<open>\<open>Path(filename).suffix.lower().lstrip(".")\<close>, the extension that is validated.\<close>

definition file_extension :: "(pystr \<Rightarrow> pystr) \<Rightarrow> pystr \<Rightarrow> pystr" where
  "file_extension lower fname = lstrip_chars (lit ''.'') (lower (path_suffix fname))"

definition validate_file ::
  "(pystr \<Rightarrow> pystr) \<Rightarrow> settings \<Rightarrow> pystr \<Rightarrow> nat \<Rightarrow> bool \<times> pystr" where
  "validate_file lower S fname file_size =
     (let ext = file_extension lower fname
      in if ext \<notin> set (allowed_extensions_list S) then
           (False, lit ''File type .'' @ ext @ lit '' not allowed. Allowed types: ''
                     @ join (lit '', '') (allowed_extensions_list S))
         else if int file_size > max_file_size S then
           (False, lit ''File size '' @ str_of_nat file_size
                     @ lit '' exceeds maximum allowed size '' @ str_of_int (max_file_size S))
         else (True, lit ''Valid file''))"

text \<open>\<open>save_file\<close>: \<open>file_id\<close> is the value drawn by \<open>uuid.uuid4()\<close>.\<close>

definition save_file ::
  "settings \<Rightarrow> filesystem \<Rightarrow> pystr \<Rightarrow> pystr \<Rightarrow> pystr \<Rightarrow> error + (pystr \<times> filesystem)" where
  "save_file S fs file_id file_content fname =
     (let new_filename = file_id @ lit ''_'' @ fname;
          file_path = os_path_join (uploads_dir S) new_filename
      in case write_file fs file_path file_content of
           Inl e \<Rightarrow> Inl e
         | Inr fs' \<Rightarrow> Inr (file_path, fs'))"

text \<open>
  The text extraction libraries are external: what they make of the bytes of a file
  (\<open>None\<close> when they raise).
\<close>

record extractors =
  pdf_pages :: "pystr \<Rightarrow> pystr list option"
  docx_paragraphs :: "pystr \<Rightarrow> pystr list option"
  decode_utf8 :: "pystr \<Rightarrow> pystr option"
  markdown_to_text :: "pystr \<Rightarrow> pystr option"

definition lines_text :: "pystr list \<Rightarrow> pystr" where
  "lines_text parts = strip (concat (map (\<lambda>p. p @ [10]) parts))"

definition extract_from_pdf :: "extractors \<Rightarrow> filesystem \<Rightarrow> pystr \<Rightarrow> error + pystr" where
  "extract_from_pdf X fs file_path =
     (case read_file fs file_path of
        Inl e \<Rightarrow> Inl e
      | Inr bytes \<Rightarrow>
          (case pdf_pages X bytes of
             None \<Rightarrow> Inl ExtractionError | Some pages \<Rightarrow> Inr (lines_text pages)))"

definition extract_from_docx :: "extractors \<Rightarrow> filesystem \<Rightarrow> pystr \<Rightarrow> error + pystr" where
  "extract_from_docx X fs file_path =
     (case read_file fs file_path of
        Inl e \<Rightarrow> Inl e
      | Inr bytes \<Rightarrow>
          (case docx_paragraphs X bytes of
             None \<Rightarrow> Inl ExtractionError | Some paragraphs \<Rightarrow> Inr (lines_text paragraphs)))"

definition extract_from_txt :: "extractors \<Rightarrow> filesystem \<Rightarrow> pystr \<Rightarrow> error + pystr" where
  "extract_from_txt X fs file_path =
     (case read_file fs file_path of
        Inl e \<Rightarrow> Inl e
      | Inr bytes \<Rightarrow>
          (case decode_utf8 X bytes of None \<Rightarrow> Inl ExtractionError | Some t \<Rightarrow> Inr t))"

definition extract_from_markdown :: "extractors \<Rightarrow> filesystem \<Rightarrow> pystr \<Rightarrow> error + pystr" where
  "extract_from_markdown X fs file_path =
     (case read_file fs file_path of
        Inl e \<Rightarrow> Inl e
      | Inr bytes \<Rightarrow>
          (case decode_utf8 X bytes of
             None \<Rightarrow> Inl ExtractionError
           | Some md_content \<Rightarrow>
               (case markdown_to_text X md_content of
                  None \<Rightarrow> Inl ExtractionError | Some t \<Rightarrow> Inr t)))"

text \<open>
  \<open>extract_text_from_file\<close>: whatever is raised is raised again as one exception,
  \<open>Exception("Error extracting text from ...")\<close>.
\<close>

definition extract_text_from_file ::
  "(pystr \<Rightarrow> pystr) \<Rightarrow> extractors \<Rightarrow> filesystem \<Rightarrow> pystr \<Rightarrow> error + pystr" where
  "extract_text_from_file lower X fs file_path =
     (let file_extension = lower (path_suffix file_path);
          extracted =
            (if file_extension = lit ''.pdf'' then extract_from_pdf X fs file_path
             else if file_extension = lit ''.docx'' then extract_from_docx X fs file_path
             else if file_extension = lit ''.txt'' then extract_from_txt X fs file_path
             else if file_extension = lit ''.md'' then extract_from_markdown X fs file_path
             else Inl (ValueError (lit ''Unsupported file type: '' @ file_extension)))
      in case extracted of Inl e \<Rightarrow> Inl ExtractionError | Inr t \<Rightarrow> Inr t)"

section \<open>The RAG service\<close>

text \<open>
  What an upload draws from outside: the two values of \<open>uuid.uuid4()\<close> and the
  readings of the clock.
\<close>

record draws =
  uuid_file :: pystr
  uuid_document :: pystr
  now_metadata :: pystr
  now_rendered :: pystr
  now_indexed :: pystr
  now_response :: pystr

text \<open>
  The \<open>DocumentResponse\<close> of an upload, without the processing time (a difference of
  clock readings) and the constant storage type.
\<close>

record document_response =
  response_id :: pystr
  response_filename :: pystr
  content_preview :: pystr
  response_upload_time :: pystr
  summary :: pystr
  file_size :: nat

text \<open>The cleanup of the \<open>except\<close> branch: \<open>os.remove(file_path)\<close>, failures ignored.\<close>

definition remove_saved_file :: "store \<Rightarrow> pystr \<Rightarrow> store" where
  "remove_saved_file st file_path =
     (case os_remove (files st) file_path of Inl e \<Rightarrow> st | Inr fs' \<Rightarrow> st\<lparr>files := fs'\<rparr>)"

text \<open>
  \<open>upload_document\<close>.  \<open>Inl e\<close> is the exception
  \<open>Exception("Error processing document: ...")\<close> raised for the cause \<open>e\<close>; the result
  is \<open>None\<close> when the chunker never returns.
\<close>

definition upload_document ::
  "(pystr \<Rightarrow> pystr) \<Rightarrow> extractors \<Rightarrow> settings \<Rightarrow> draws \<Rightarrow> store \<Rightarrow> azure_ai \<Rightarrow> pystr \<Rightarrow> pystr
     \<Rightarrow> ((error + document_response) \<times> store \<times> azure_ai) option" where
  "upload_document lower X S d st ai file_content fname =
     (let (is_valid, message) = validate_file lower S fname (length file_content)
      in if \<not> is_valid then Some (Inl (ValueError message), st, ai)
         else
           (case save_file S (files st) (uuid_file d) file_content fname of
              Inl e \<Rightarrow> Some (Inl e, st, ai)
            | Inr (file_path, fs1) \<Rightarrow>
                (let st1 = st\<lparr>files := fs1\<rparr>
                 in (case extract_text_from_file lower X fs1 file_path of
                       Inl e \<Rightarrow> Some (Inl e, remove_saved_file st1 file_path, ai)
                     | Inr text_content \<Rightarrow>
                         (let md = \<lparr>md_source = fname, md_file_path = file_path,
                                    md_upload_time = now_metadata d,
                                    md_file_size = length file_content\<rparr>
                          in (case add_document S st1 (uuid_document d) fname text_content md
                                     (now_rendered d) (now_indexed d) of
                                None \<Rightarrow> None
                              | Some (success, st2) \<Rightarrow>
                                  if \<not> success
                                  then Some (Inl StoreError, remove_saved_file st2 file_path, ai)
                                  else
                                    (let (summ, ai') = summarize_document ai text_content 200
                                     in Some (Inr \<lparr>response_id = uuid_document d,
                                                   response_filename = fname,
                                                   content_preview = ellipsis 500 text_content,
                                                   response_upload_time = now_response d,
                                                   summary = summ,
                                                   file_size = length file_content\<rparr>,
                                              st2, ai'))))))))"

text \<open>\<open>query_documents\<close>: search, then answer from what was found.\<close>

record query_source =
  source_name :: pystr
  source_document_id :: pystr
  source_score :: int
  source_preview :: pystr

record query_response =
  answer :: pystr
  sources :: "query_source list"

definition query_documents ::
  "(pystr \<Rightarrow> pystr) \<Rightarrow> store \<Rightarrow> azure_ai \<Rightarrow> pystr \<Rightarrow> int \<Rightarrow> query_response \<times> store \<times> azure_ai" where
  "query_documents lower st ai query max_results =
     (let (relevant_docs, st') = search_documents lower st query max_results;
          (ans, ai') = generate_response ai query relevant_docs 1000
      in (\<lparr>answer = ans,
            sources = map (\<lambda>doc. \<lparr>source_name = source (result_metadata doc),
                                  source_document_id = document_id (result_metadata doc),
                                  source_score = score doc,
                                  source_preview = take 200 (content doc) @ lit ''...''\<rparr>)
                        relevant_docs\<rparr>,
          st', ai'))"

section \<open>Derived notions\<close>

text \<open>
  The score that \<open>search_documents\<close> computes for a document whose file holds
  \<open>doc\<close>, and the document ids of the results it returns.
\<close>

definition query_score :: "(pystr \<Rightarrow> pystr) \<Rightarrow> pystr \<Rightarrow> pystr \<Rightarrow> int" where
  "query_score lower query doc =
     document_score (lower query) (extract_keywords lower (lower query)) (lower doc)"

definition returned_ids :: "(pystr \<Rightarrow> pystr) \<Rightarrow> store \<Rightarrow> pystr \<Rightarrow> int \<Rightarrow> pystr list" where
  "returned_ids lower st query max_results =
     map (\<lambda>r. document_id (result_metadata r)) (fst (search_documents lower st query max_results))"

text \<open>The pass of the search loop for one index record, for a query.\<close>

definition search_pass ::
  "(pystr \<Rightarrow> pystr) \<Rightarrow> store \<Rightarrow> pystr \<Rightarrow> pystr \<times> doc_info \<Rightarrow> search_result option" where
  "search_pass lower st query item =
     search_document lower (files st) (lower query) (extract_keywords lower (lower query)) item"

section \<open>Example inputs\<close>

text \<open>
  A configuration whose overlap is below the chunk size, and a text whose only period
  stands at index 8.
\<close>

definition looping_settings :: settings where
  "looping_settings = default_settings\<lparr>chunk_size := 10, chunk_overlap := 9\<rparr>"

definition looping_text :: pystr where
  "looping_text = lit ''aaaaaaaa.aaaaaaa''"

text \<open>
  For every chunk size, a text without a period that is longer than the chunk size.
\<close>

definition plain_text :: "int \<Rightarrow> pystr" where
  "plain_text csize = replicate (nat csize + 1) 97"

text \<open>
  For every chunk size and overlap, a text whose only period stands at index
  \<open>coverlap - 1\<close>, longer than the chunk size.
\<close>

definition period_text :: "int \<Rightarrow> int \<Rightarrow> pystr" where
  "period_text csize coverlap = replicate (nat coverlap - 1) 97 @ [46] @ replicate (nat csize) 97"

text \<open>The configuration and the document of the specification's end-to-end scenario.\<close>

definition fox_settings :: settings where
  "fox_settings = default_settings\<lparr>chunk_size := 50, chunk_overlap := 10\<rparr>"

definition fox_text :: pystr where
  "fox_text = lit ''The quick brown fox jumps over the lazy dog. The fox runs fast.''"

text \<open>
  A store of five records: three with a readable file, one whose file is missing, and
  one whose path is a directory.
\<close>

definition example_info :: "string \<Rightarrow> string \<Rightarrow> doc_info" where
  "example_info name path =
     \<lparr>filename = lit name, markdown_file = lit path, upload_time = lit ''2024-05-01T10:00:00'',
      content_length = 19, chunks_count = 1,
      metadata = \<lparr>md_source = lit name, md_file_path = lit ''/up/'' @ lit name,
                  md_upload_time = lit ''2024-05-01T10:00:00'', md_file_size = 19\<rparr>\<rparr>"

definition example_index :: "(pystr \<times> doc_info) list" where
  "example_index =
     [(lit ''d1'', example_info ''fox.txt'' ''/md/d1.md''),
      (lit ''d2'', example_info ''dog.txt'' ''/md/d2.md''),
      (lit ''d3'', example_info ''run.txt'' ''/md/d3.md''),
      (lit ''d4'', example_info ''old.txt'' ''/md/d4.md''),
      (lit ''d5'', example_info ''dir.txt'' ''/md/d5.md'')]"

definition example_files :: filesystem where
  "example_files =
     [lit ''/md/d1.md'' \<mapsto> Regular (lit ''The quick brown fox''),
      lit ''/md/d2.md'' \<mapsto> Regular (lit ''A lazy dog sleeps''),
      lit ''/md/d3.md'' \<mapsto> Regular (lit ''The fox runs fast''),
      lit ''/md/d5.md'' \<mapsto> Directory]"

definition example_store :: store where
  "example_store =
     \<lparr>documents_index = example_index, files = example_files,
      documents_file = example_index, documents_file_writable = True\<rparr>"

definition example_result :: "string \<Rightarrow> string \<Rightarrow> string \<Rightarrow> int \<Rightarrow> search_result" where
  "example_result i name body sc =
     \<lparr>content = lit body,
      result_metadata = \<lparr>document_id = lit i, source = lit name,
                         result_upload_time = lit ''2024-05-01T10:00:00''\<rparr>,
      score = sc\<rparr>"

text \<open>A service with a client that always answers, and one upload's draws.\<close>

definition example_ai :: azure_ai where
  "example_ai = \<lparr>openai_client = Some (\<lambda>sys prompt n. Inr (lit ''An answer.'')), requests = []\<rparr>"

definition example_draws :: draws where
  "example_draws =
     \<lparr>uuid_file = lit ''f-1'', uuid_document = lit ''d-9'',
      now_metadata = lit ''2024-05-02T09:00:00'', now_rendered = lit ''2024-05-02T09:00:01'',
      now_indexed = lit ''2024-05-02T09:00:02'', now_response = lit ''2024-05-02T09:00:03''\<rparr>"

definition small_upload_settings :: settings where
  "small_upload_settings = default_settings\<lparr>max_file_size := 4\<rparr>"

definition example_extractors :: extractors where
  "example_extractors =
     \<lparr>pdf_pages = (\<lambda>b. None), docx_paragraphs = (\<lambda>b. None),
      decode_utf8 = (\<lambda>b. Some b), markdown_to_text = (\<lambda>t. Some t)\<rparr>"

section \<open>Properties of the text chunker\<close>

lemma chunk_loop_returns:
  assumes "coverlap < csize" and "coverlap \<le> csize div 2 + 1"
  shows "\<exists>out. chunk_loop csize coverlap t chunks start = Some out"
proof (induction "nat (int (length t) - start)" arbitrary: start chunks rule: less_induct)
  case less
  show ?case
  proof (cases "start < int (length t)")
    case False
    then show ?thesis by (subst chunk_loop.simps) simp
  next
    case True
    define end0 where "end0 = start + csize"
    define lp where "lp = rfind_char 46 t start end0"
    define end1 where
      "end1 = (if end0 < int (length t) then
                 if lp \<noteq> - 1 \<and> lp > start + csize div 2 then lp + 1 else end0
               else end0)"
    define chunk where "chunk = strip (py_slice t start end1)"
    define chunks' where "chunks' = (if chunk \<noteq> [] then chunks @ [chunk] else chunks)"
    have advance: "start < end1 - coverlap"
      using assms by (auto simp: end1_def end0_def)
    have step: "chunk_loop csize coverlap t chunks start =
        (if end1 - coverlap \<ge> int (length t) then Some chunks'
         else chunk_loop csize coverlap t chunks' (end1 - coverlap))"
      using True
      by (subst chunk_loop.simps)
         (simp add: Let_def end0_def lp_def end1_def chunk_def chunks'_def)
    show ?thesis
    proof (cases "end1 - coverlap \<ge> int (length t)")
      case True
      with step show ?thesis by simp
    next
      case False
      have "nat (int (length t) - (end1 - coverlap)) < nat (int (length t) - start)"
        using advance False by linarith
      from less[OF this, of chunks'] step False show ?thesis by simp
    qed
  qed
qed

lemma len_looping: "int (length looping_text) = 16"
  by (simp add: looping_text_def lit_def)

lemma rfind_looping: "rfind_char 46 looping_text 0 10 = 8"
  by code_simp

lemma slice_looping: "strip (py_slice looping_text 0 9) = lit ''aaaaaaaa.''"
  by (simp add: looping_text_def lit_def strip_def py_slice_def py_adjust_def isspace_def)

text \<open>
  With chunk size 10 and overlap 9 the window over \<open>looping_text\<close> is cut after the
  period at index 8, so the next window starts at \<open>9 - 9 = 0\<close> again: whatever the
  loop would return, it would have to return from the same start.
\<close>

lemma chunk_loop_stuck:
  "chunk_loop csize coverlap t chunks start = Some out \<Longrightarrow>
     \<not> (csize = 10 \<and> coverlap = 9 \<and> t = looping_text \<and> start = 0)"
proof (induction rule: chunk_loop.raw_induct[rotated 1, consumes 1])
  case (1 f csize coverlap t chunks start out)
  show ?case
  proof
    assume a: "csize = 10 \<and> coverlap = 9 \<and> t = looping_text \<and> start = 0"
    have "f 10 9 looping_text (chunks @ [lit ''aaaaaaaa.'']) 0 = Some out"
      using 1(2) a
      by (simp add: Let_def rfind_looping slice_looping len_looping lit_def cong: if_cong)
    from 1(1)[OF this] show False by blast
  qed
qed

lemma chunk_loop_diverges: "chunk_loop 10 9 looping_text chunks 0 = None"
proof (cases "chunk_loop 10 9 looping_text chunks 0")
  case (Some out)
  from chunk_loop_stuck[OF this] show ?thesis by simp
qed simp

text \<open>
  Claim C2, as amended: for every text with \<open>len(text) <= chunk_size\<close> both chunking
  functions return exactly one chunk, and that chunk is the input text itself, with
  its leading and trailing whitespace kept.
\<close>

theorem short_text_single_chunk:
  "(int (length t) \<le> chunk_size S \<longrightarrow> split_text_into_chunks S t = Some [t]) \<and>
   (int (length t) \<le> or_default csize (chunk_size S) \<longrightarrow>
      processor_split_text_into_chunks S t csize coverlap = Some [t])"
  by (simp add: split_text_into_chunks_def processor_split_text_into_chunks_def Let_def)

theorem short_text_single_chunk_witness:
  "int (length fox_text) \<le> chunk_size default_settings \<and>
   split_text_into_chunks default_settings fox_text = Some [fox_text] \<and>
   int (length fox_text) \<le> or_default (Some 80) (chunk_size default_settings) \<and>
   processor_split_text_into_chunks default_settings fox_text (Some 80) None = Some [fox_text]"
proof -
  have a: "int (length fox_text) \<le> chunk_size default_settings"
    by (simp add: fox_text_def lit_def default_settings_def)
  have b: "int (length fox_text) \<le> or_default (Some 80) (chunk_size default_settings)"
    by (simp add: fox_text_def lit_def or_default_def)
  from a b short_text_single_chunk[of fox_text default_settings "Some 80" None]
  show ?thesis by simp
qed

text \<open>
  The claim as stated asks for the trimmed text: a text of two characters, a space and
  a letter, is returned with its space.
\<close>

theorem short_text_not_trimmed:
  "int (length (lit '' a'')) \<le> chunk_size default_settings \<and>
   split_text_into_chunks default_settings (lit '' a'') = Some [lit '' a''] \<and>
   processor_split_text_into_chunks default_settings (lit '' a'') None None = Some [lit '' a''] \<and>
   strip (lit '' a'') = lit ''a'' \<and>
   lit '' a'' \<noteq> strip (lit '' a'')"
  by (simp add: split_text_into_chunks_def processor_split_text_into_chunks_def
      or_default_def default_settings_def lit_def strip_def isspace_def)

text \<open>
  Claim C3, as amended: for every input text, whenever \<open>chunk_overlap < chunk_size\<close>
  and \<open>chunk_overlap <= chunk_size // 2 + 1\<close>, the chunking loop terminates and the
  chunker returns a list of chunks.  (A window cut at a sentence boundary can be as
  short as \<open>chunk_size // 2 + 2\<close> characters, so a larger overlap can fail to advance
  although it is below the chunk size.)
\<close>

theorem chunking_terminates:
  assumes "chunk_overlap S < chunk_size S"
    and "chunk_overlap S \<le> chunk_size S div 2 + 1"
  shows "\<exists>chunks. split_text_into_chunks S t = Some chunks"
  using chunk_loop_returns[OF assms] by (simp add: split_text_into_chunks_def)

theorem chunking_terminates_witness:
  "chunk_overlap fox_settings < chunk_size fox_settings \<and>
   chunk_overlap fox_settings \<le> chunk_size fox_settings div 2 + 1 \<and>
   int (length fox_text) > chunk_size fox_settings \<and>
   (\<exists>chunks. split_text_into_chunks fox_settings fox_text = Some chunks)"
proof -
  have a: "chunk_overlap fox_settings < chunk_size fox_settings"
    by (simp add: fox_settings_def)
  have b: "chunk_overlap fox_settings \<le> chunk_size fox_settings div 2 + 1"
    by (simp add: fox_settings_def)
  have c: "int (length fox_text) > chunk_size fox_settings"
    by (simp add: fox_settings_def fox_text_def lit_def)
  from a b c chunking_terminates[OF a b, of fox_text] show ?thesis by simp
qed

text \<open>
  The claim as stated fails: with chunk size 10 and overlap 9 (an overlap below the
  chunk size) the loop never returns on \<open>looping_text\<close>.
\<close>

theorem chunking_diverges_below_chunk_size:
  "chunk_overlap looping_settings < chunk_size looping_settings \<and>
   split_text_into_chunks looping_settings looping_text = None"
  by (simp add: split_text_into_chunks_def looping_settings_def default_settings_def
      len_looping chunk_loop_diverges)

text \<open>
  The two bounds are exact: for every configuration outside them there is a text on
  which the chunker never returns.  With an overlap of at least the chunk size a text
  without a period is enough; with a smaller overlap of at least
  \<open>chunk_size // 2 + 2\<close> the window is cut after the period at index
  \<open>chunk_overlap - 1\<close> and the next window starts at 0 again.
\<close>

lemma py_adjust_le: "0 \<le> n \<Longrightarrow> py_adjust n i \<le> n"
  by (simp add: py_adjust_def)

lemma rfind_char_absent:
  assumes "c \<notin> set s"
  shows "rfind_char c s i j = - 1"
proof -
  have "nat (py_adjust (int (length s)) j) \<le> length s"
    using py_adjust_le[of "int (length s)" j] by simp
  then have "filter (\<lambda>k. s ! k = c)
      (rev [nat (py_adjust (int (length s)) i) ..< nat (py_adjust (int (length s)) j)]) = []"
    using assms by (auto simp: filter_empty_conv)
  then show ?thesis by (simp add: rfind_char_def Let_def)
qed

lemma filter_upt_single:
  assumes "m < n" and "\<And>k. k < n \<Longrightarrow> P k \<longleftrightarrow> k = m"
  shows "filter P [0 ..< n] = [m]"
  using assms
proof (induction n)
  case 0
  then show ?case by simp
next
  case (Suc n)
  show ?case
  proof (cases "m = n")
    case True
    have "filter P [0 ..< n] = []"
      using Suc.prems(2) True by (auto simp: filter_empty_conv)
    moreover have "P n" using Suc.prems(2)[of n] True by simp
    ultimately show ?thesis using True by simp
  next
    case False
    with Suc.prems(1) have "m < n" by simp
    moreover have "\<And>k. k < n \<Longrightarrow> P k \<longleftrightarrow> k = m" using Suc.prems(2) by simp
    ultimately have "filter P [0 ..< n] = [m]" by (rule Suc.IH)
    moreover have "\<not> P n" using Suc.prems(2)[of n] False by simp
    ultimately show ?thesis by simp
  qed
qed

lemma chunk_loop_never_advances:
  assumes "cs \<le> co"
  shows "chunk_loop csize coverlap t chunks start = Some out \<Longrightarrow>
     \<not> (csize = cs \<and> coverlap = co \<and> t = plain_text cs \<and> start \<le> 0)"
proof (induction rule: chunk_loop.raw_induct[rotated 1, consumes 1])
  case (1 f csize coverlap t chunks start out)
  show ?case
  proof
    assume a: "csize = cs \<and> coverlap = co \<and> t = plain_text cs \<and> start \<le> 0"
    have r: "rfind_char 46 (plain_text cs) i j = - 1" for i j
      by (rule rfind_char_absent) (simp add: plain_text_def)
    have l: "start < int (length (plain_text cs))" "start + cs - co < int (length (plain_text cs))"
      using a assms by (simp_all add: plain_text_def)
    from 1(2) a l have "\<exists>chunks'. f cs co (plain_text cs) chunks' (start + cs - co) = Some out"
      by (auto simp: Let_def r split: if_splits)
    then obtain chunks' where "f cs co (plain_text cs) chunks' (start + cs - co) = Some out" ..
    from 1(1)[OF this] a assms show False by simp
  qed
qed

lemma period_text_rfind:
  assumes "cs div 2 + 2 \<le> co" and "co < cs"
  shows "rfind_char 46 (period_text cs co) 0 cs = co - 1"
proof -
  from assms have pos: "0 < co" "0 < cs" by linarith+
  let ?t = "period_text cs co"
  have len: "int (length ?t) = co + cs" using pos by (simp add: period_text_def)
  have b: "py_adjust (int (length ?t)) cs = cs" using pos by (simp add: len py_adjust_def)
  have a: "py_adjust (int (length ?t)) 0 = 0" by (simp add: py_adjust_def)
  have n: "?t ! k = 46 \<longleftrightarrow> k = nat co - 1" if "k < nat cs" for k
    using that pos assms by (auto simp: period_text_def nth_append nth_Cons')
  have "filter (\<lambda>k. ?t ! k = 46) [0 ..< nat cs] = [nat co - 1]"
    by (rule filter_upt_single) (use assms pos n in auto)
  then have "filter (\<lambda>k. ?t ! k = 46) (rev [0 ..< nat cs]) = [nat co - 1]"
    by (simp add: rev_filter[symmetric])
  then show ?thesis using pos by (simp add: rfind_char_def Let_def a b)
qed

lemma chunk_loop_restarts:
  assumes "cs div 2 + 2 \<le> co" and "co < cs"
  shows "chunk_loop csize coverlap t chunks start = Some out \<Longrightarrow>
     \<not> (csize = cs \<and> coverlap = co \<and> t = period_text cs co \<and> start = 0)"
proof (induction rule: chunk_loop.raw_induct[rotated 1, consumes 1])
  case (1 f csize coverlap t chunks start out)
  show ?case
  proof
    assume a: "csize = cs \<and> coverlap = co \<and> t = period_text cs co \<and> start = 0"
    from assms have pos: "0 < co" "0 < cs" by linarith+
    have len: "int (length (period_text cs co)) = co + cs"
      using pos by (simp add: period_text_def)
    from 1(2) a assms pos have "\<exists>chunks'. f cs co (period_text cs co) chunks' 0 = Some out"
      by (auto simp: Let_def len period_text_rfind split: if_splits)
    then obtain chunks' where "f cs co (period_text cs co) chunks' 0 = Some out" ..
    from 1(1)[OF this] show False by blast
  qed
qed

lemma chunking_bound_is_tight:
  assumes "\<not> (chunk_overlap S < chunk_size S \<and> chunk_overlap S \<le> chunk_size S div 2 + 1)"
  shows "\<exists>t. split_text_into_chunks S t = None"
proof (cases "chunk_size S \<le> chunk_overlap S")
  case True
  have "chunk_loop (chunk_size S) (chunk_overlap S) (plain_text (chunk_size S)) [] 0 = None"
  proof (cases "chunk_loop (chunk_size S) (chunk_overlap S) (plain_text (chunk_size S)) [] 0")
    case (Some out)
    from chunk_loop_never_advances[OF True Some] show ?thesis by simp
  qed simp
  then have "split_text_into_chunks S (plain_text (chunk_size S)) = None"
    by (simp add: split_text_into_chunks_def plain_text_def)
  then show ?thesis ..
next
  case False
  with assms have c: "chunk_size S div 2 + 2 \<le> chunk_overlap S" "chunk_overlap S < chunk_size S"
    by linarith+
  let ?t = "period_text (chunk_size S) (chunk_overlap S)"
  have "chunk_loop (chunk_size S) (chunk_overlap S) ?t [] 0 = None"
  proof (cases "chunk_loop (chunk_size S) (chunk_overlap S) ?t [] 0")
    case (Some out)
    from chunk_loop_restarts[OF c Some] show ?thesis by simp
  qed simp
  moreover from c have "0 < chunk_overlap S" "0 < chunk_size S" by linarith+
  then have "\<not> int (length ?t) \<le> chunk_size S"
    by (simp add: period_text_def)
  ultimately have "split_text_into_chunks S ?t = None"
    by (simp add: split_text_into_chunks_def)
  then show ?thesis ..
qed

text \<open>
  The specification's end-to-end scenario: with chunk size 50 and overlap 10 the
  document is cut after the first sentence, and the second chunk starts 10 characters
  before that cut.
\<close>

lemma fox_len: "int (length fox_text) = 63"
  by (simp add: fox_text_def lit_def)

lemma fox_rfind: "rfind_char 46 fox_text 0 50 = 43"
  by code_simp

lemma fox_slice1:
  "strip (py_slice fox_text 0 44) = lit ''The quick brown fox jumps over the lazy dog.''"
  by (simp add: fox_text_def lit_def strip_def py_slice_def py_adjust_def isspace_def)

lemma fox_slice2: "strip (py_slice fox_text 34 84) = lit ''lazy dog. The fox runs fast.''"
  by (simp add: fox_text_def lit_def strip_def py_slice_def py_adjust_def isspace_def)

lemma fox_two_chunks:
  "split_text_into_chunks fox_settings fox_text =
     Some [lit ''The quick brown fox jumps over the lazy dog.'',
           lit ''lazy dog. The fox runs fast.'']"
proof -
  have n: "lit ''The quick brown fox jumps over the lazy dog.'' \<noteq> []"
    "lit ''lazy dog. The fox runs fast.'' \<noteq> []"
    by (simp_all add: lit_def)
  have "chunk_loop 50 10 fox_text [] 0 =
          chunk_loop 50 10 fox_text [lit ''The quick brown fox jumps over the lazy dog.''] 34"
    by (subst chunk_loop.simps) (simp add: fox_len fox_rfind fox_slice1 n Let_def)
  also have "\<dots> = Some [lit ''The quick brown fox jumps over the lazy dog.'',
                          lit ''lazy dog. The fox runs fast.'']"
    by (subst chunk_loop.simps) (simp add: fox_len fox_slice2 n Let_def)
  finally show ?thesis
    by (simp add: split_text_into_chunks_def fox_settings_def default_settings_def fox_len)
qed

section \<open>Properties of the search\<close>

lemma keyword_matching_eq:
  "keyword_matching sc kws c = sc + 3 * int (count_matches kws c)"
  by (induction kws arbitrary: sc) (auto simp: count_matches_def)

lemma document_score_eq:
  "document_score ql kws c = (if str_in ql c then 10 else 0) + 3 * int (count_matches kws c)"
  by (simp add: document_score_def keyword_matching_eq)

lemma str_in_Nil: "str_in [] s"
  by (induction s) auto

lemma count_matches_0_iff: "count_matches kws c = 0 \<longleftrightarrow> (\<forall>k\<in>set kws. \<not> str_in k c)"
  by (auto simp: count_matches_def filter_empty_conv)

lemma set_map_filter: "set (List.map_filter f xs) = {y. \<exists>x\<in>set xs. f x = Some y}"
  by (induction xs) (auto split: option.splits)

lemma emitted_results_passes:
  "emitted_results lower st query = List.map_filter (search_pass lower st query) (documents_index st)"
  by (simp add: emitted_results_def Let_def search_pass_def[abs_def])

lemma search_pass_Some:
  assumes "search_pass lower st query item = Some r"
  shows "\<exists>doc. files st (markdown_file (snd item)) = Some (Regular doc)
          \<and> score r = query_score lower query doc \<and> score r > 0
          \<and> document_id (result_metadata r) = fst item
          \<and> relevant_chunks lower (lower query) (extract_keywords lower (lower query)) doc \<noteq> []"
  using assms
  by (auto simp: search_pass_def search_document_def query_score_def Let_def read_file_def
      os_path_exists_def split: if_splits option.splits file_entry.splits)

lemma search_pass_unreadable:
  assumes "\<And>doc. files st (markdown_file (snd item)) \<noteq> Some (Regular doc)"
  shows "search_pass lower st query item = None"
proof (cases "search_pass lower st query item")
  case (Some r)
  from search_pass_Some[OF this] assms show ?thesis by blast
qed simp

lemma search_pass_readable:
  assumes "files st (markdown_file (snd item)) = Some (Regular doc)"
  shows "search_pass lower st query item =
     (if query_score lower query doc > 0
         \<and> relevant_chunks lower (lower query) (extract_keywords lower (lower query)) doc \<noteq> []
      then Some \<lparr>content = join [10, 10] (take 3
                   (relevant_chunks lower (lower query) (extract_keywords lower (lower query)) doc)),
                 result_metadata = \<lparr>document_id = fst item, source = filename (snd item),
                                    result_upload_time = upload_time (snd item)\<rparr>,
                 score = query_score lower query doc\<rparr>
      else None)"
  using assms
  by (simp add: search_pass_def search_document_def query_score_def Let_def read_file_def
      os_path_exists_def)

lemma set_py_upto: "set (py_upto xs m) \<subseteq> set xs"
  by (auto simp: py_upto_def dest: in_set_takeD)

lemma returned_are_emitted:
  "set (fst (search_documents lower st query m)) \<subseteq> set (emitted_results lower st query)"
  using set_py_upto[of "sort_by_score (emitted_results lower st query)" m]
  by (simp add: search_documents_def sort_by_score_def)

lemma returned_result_pass:
  assumes "r \<in> set (fst (search_documents lower st query m))"
  shows "\<exists>item\<in>set (documents_index st). search_pass lower st query item = Some r"
  using assms returned_are_emitted[of lower st query m]
  by (auto simp: emitted_results_passes set_map_filter)

lemma distinct_keys_same_item:
  assumes "distinct (map fst xs)" and "a \<in> set xs" and "b \<in> set xs" and "fst a = fst b"
  shows "a = b"
  using assms by (metis eq_key_imp_eq_value prod.collapse)

lemma no_pass_not_returned:
  assumes "distinct (map fst (documents_index st))"
    and "item \<in> set (documents_index st)"
    and "search_pass lower st query item = None"
  shows "fst item \<notin> set (returned_ids lower st query m)"
proof
  assume "fst item \<in> set (returned_ids lower st query m)"
  then obtain r where r: "r \<in> set (fst (search_documents lower st query m))"
    and id: "document_id (result_metadata r) = fst item"
    by (auto simp: returned_ids_def)
  from returned_result_pass[OF r] obtain item' where
    i: "item' \<in> set (documents_index st)" and p: "search_pass lower st query item' = Some r"
    by blast
  from search_pass_Some[OF p] id have "fst item' = fst item" by auto
  from distinct_keys_same_item[OF assms(1) i assms(2) this] p assms(3) show False by simp
qed

lemma prefix_filter_take: "prefix (filter P (take n xs)) (filter P xs)"
proof -
  have "filter P xs = filter P (take n xs) @ filter P (drop n xs)"
    by (metis append_take_drop_id filter_append)
  then show ?thesis by (metis prefixI)
qed

lemma sorted_desc_sort_by_score: "sorted_wrt (\<lambda>a b. score a \<ge> score b) (sort_by_score rs)"
proof -
  have "sorted (map (\<lambda>r. - score r) (sort_by_score rs))"
    by (simp add: sort_by_score_def)
  then show ?thesis
    by (simp add: sorted_map sorted_wrt_iff_nth_less) 
qed

lemma sorted_wrt_take: "sorted_wrt P xs \<Longrightarrow> sorted_wrt P (take n xs)"
  by (metis append_take_drop_id sorted_wrt_append)

lemma filter_sort_by_score:
  "filter (\<lambda>r. score r = k) (sort_by_score rs) = filter (\<lambda>r. score r = k) rs"
proof -
  have "filter (\<lambda>r. - score r = - k) (sort_key (\<lambda>r. - score r) rs)
      = filter (\<lambda>r. - score r = - k) rs"
    by (rule sort_key_stable)
  then show ?thesis by (simp add: sort_by_score_def)
qed

text \<open>
  What a stable sort by descending score returns is determined by these properties,
  whichever sorting algorithm runs: a list with the same elements, in descending order
  of score, that keeps the order of the results of each score, is \<open>sort_by_score\<close>.
\<close>

lemma sort_by_score_unique:
  assumes "mset ys = mset rs"
    and "sorted_wrt (\<lambda>a b. score a \<ge> score b) ys"
    and "\<And>k. filter (\<lambda>r. score r = k) ys = filter (\<lambda>r. score r = k) rs"
  shows "sort_by_score rs = ys"
  unfolding sort_by_score_def
proof (rule properties_for_sort_key)
  show "mset ys = mset rs" by fact
next
  fix k
  have e: "(\<lambda>x. - score k = - score x) = (\<lambda>r. score r = score k)" by auto
  show "filter (\<lambda>x. - score k = - score x) ys = filter (\<lambda>x. - score k = - score x) rs"
    unfolding e by (rule assms(3))
next
  from assms(2) show "sorted (map (\<lambda>r. - score r) ys)"
    by (simp add: sorted_map)
qed

lemma length_py_upto: "0 \<le> m \<Longrightarrow> int (length (py_upto xs m)) \<le> m"
  by (auto simp: py_upto_def py_adjust_def)

lemma sort_by_score_const:
  assumes "\<forall>r\<in>set rs. score r = c"
  shows "sort_by_score rs = rs"
proof -
  have "filter (\<lambda>r. score r = c) (sort_by_score rs) = filter (\<lambda>r. score r = c) rs"
    by (rule filter_sort_by_score)
  moreover have "\<forall>r\<in>set (sort_by_score rs). score r = c"
    using assms by (simp add: sort_by_score_def)
  ultimately show ?thesis using assms by (simp add: filter_id_conv[THEN iffD2])
qed

text \<open>
  Claim C1, as amended: for every query and every document content, the keyword
  contribution to the search score equals 3 per entry of the extracted keyword list that
  occurs as a substring of the lowercased content.  A keyword is counted once however
  often it occurs in the content, but a keyword that the extractor outputs several
  times is counted once for each of its entries in the list.
\<close>

theorem keyword_score_counts_list_entries:
  "query_score lower query doc =
     (if str_in (lower query) (lower doc) then 10 else 0)
     + 3 * int (length (filter (\<lambda>keyword. str_in keyword (lower doc))
                          (extract_keywords lower (lower query))))"
  by (simp add: query_score_def document_score_eq count_matches_def)

text \<open>
  Claim C4: for every store state and query, a document whose stored content (compared
  in lowercase, as the search does) contains the lowercased query as an exact substring
  receives a score of at least 10, which is the score of any result returned for it;
  and a document containing neither the exact phrase nor any extracted keyword of the
  query is never present in the returned results.  The keys of the index (a dict) are
  distinct.
\<close>

theorem exact_phrase_scores_ten_no_match_not_returned:
  assumes "distinct (map fst (documents_index st))"
    and "item \<in> set (documents_index st)"
    and "files st (markdown_file (snd item)) = Some (Regular doc)"
  shows "(str_in (lower query) (lower doc) \<longrightarrow> query_score lower query doc \<ge> 10) \<and>
         (\<forall>r\<in>set (fst (search_documents lower st query m)).
            document_id (result_metadata r) = fst item \<longrightarrow> score r = query_score lower query doc) \<and>
         (\<not> str_in (lower query) (lower doc)
            \<and> (\<forall>keyword\<in>set (extract_keywords lower (lower query)). \<not> str_in keyword (lower doc))
          \<longrightarrow> fst item \<notin> set (returned_ids lower st query m))"
proof (intro conjI impI ballI)
  assume "str_in (lower query) (lower doc)"
  then show "query_score lower query doc \<ge> 10"
    by (simp add: query_score_def document_score_eq)
next
  fix r
  assume r: "r \<in> set (fst (search_documents lower st query m))"
    and id: "document_id (result_metadata r) = fst item"
  from returned_result_pass[OF r] obtain item' where
    i: "item' \<in> set (documents_index st)" and p: "search_pass lower st query item' = Some r"
    by blast
  from search_pass_Some[OF p] id have "fst item' = fst item" by auto
  from distinct_keys_same_item[OF assms(1) i assms(2) this] have "item' = item" .
  with search_pass_Some[OF p] assms(3) show "score r = query_score lower query doc" by auto
next
  assume a: "\<not> str_in (lower query) (lower doc)
            \<and> (\<forall>keyword\<in>set (extract_keywords lower (lower query)). \<not> str_in keyword (lower doc))"
  then have "count_matches (extract_keywords lower (lower query)) (lower doc) = 0"
    by (simp add: count_matches_0_iff)
  with a have "query_score lower query doc = 0"
    by (simp add: query_score_def document_score_eq)
  then have "search_pass lower st query item = None"
    by (simp add: search_pass_readable[OF assms(3)])
  from no_pass_not_returned[OF assms(1,2) this]
  show "fst item \<notin> set (returned_ids lower st query m)" .
qed

lemma emitted_ids_in_index_order:
  "subseq (map (\<lambda>r. document_id (result_metadata r)) (emitted_results lower st query))
          (map fst (documents_index st))"
proof -
  have "subseq (map (\<lambda>r. document_id (result_metadata r))
                  (List.map_filter (search_pass lower st query) items))
               (map fst items)" for items
  proof (induction items)
    case Nil
    then show ?case by simp
  next
    case (Cons item items)
    show ?case
    proof (cases "search_pass lower st query item")
      case None
      with Cons show ?thesis by (simp add: list_emb_Cons)
    next
      case (Some r)
      from search_pass_Some[OF Some] have "document_id (result_metadata r) = fst item" by blast
      with Some Cons show ?thesis by simp
    qed
  qed
  then show ?thesis by (simp add: emitted_results_passes)
qed

text \<open>
  Claim C5, as amended: for every store state, query and \<open>max_results\<close>, the list
  returned by search is ordered by score in descending order, results of equal score
  keep the index iteration order (for every score, the returned results of that score
  are a prefix of the emitted ones, and the results are emitted in the order of the
  index), and the length of the list is at most \<open>max_results\<close> whenever
  \<open>max_results\<close> is not negative.
\<close>

theorem search_results_ranked:
  "sorted_wrt (\<lambda>a b. score a \<ge> score b) (fst (search_documents lower st query m)) \<and>
   (\<forall>k. prefix (filter (\<lambda>r. score r = k) (fst (search_documents lower st query m)))
               (filter (\<lambda>r. score r = k) (emitted_results lower st query))) \<and>
   subseq (map (\<lambda>r. document_id (result_metadata r)) (emitted_results lower st query))
          (map fst (documents_index st)) \<and>
   (0 \<le> m \<longrightarrow> int (length (fst (search_documents lower st query m))) \<le> m)"
proof (intro conjI allI impI)
  show "sorted_wrt (\<lambda>a b. score a \<ge> score b) (fst (search_documents lower st query m))"
    by (simp add: search_documents_def py_upto_def sorted_wrt_take sorted_desc_sort_by_score)
next
  fix k
  show "prefix (filter (\<lambda>r. score r = k) (fst (search_documents lower st query m)))
               (filter (\<lambda>r. score r = k) (emitted_results lower st query))"
    using prefix_filter_take[of "\<lambda>r. score r = k" _ "sort_by_score (emitted_results lower st query)"]
    by (simp add: search_documents_def py_upto_def filter_sort_by_score)
next
  show "subseq (map (\<lambda>r. document_id (result_metadata r)) (emitted_results lower st query))
          (map fst (documents_index st))"
    by (rule emitted_ids_in_index_order)
next
  assume "0 \<le> m"
  then show "int (length (fst (search_documents lower st query m))) \<le> m"
    by (simp add: search_documents_def length_py_upto)
qed

text \<open>
  Claim C9: for every store state and query, search leaves the store, and with it the
  document index, unchanged; and every index record whose storage artifact is
  unreadable (missing, or not readable as text) is skipped: its pass emits no result,
  no returned result carries its id, and the record is still in the index afterwards.
\<close>

theorem search_keeps_index_and_skips_unreadable:
  "snd (search_documents lower st query m) = st \<and>
   (\<forall>item\<in>set (documents_index st).
      (\<forall>doc. files st (markdown_file (snd item)) \<noteq> Some (Regular doc)) \<longrightarrow>
        search_pass lower st query item = None \<and>
        item \<in> set (documents_index (snd (search_documents lower st query m))) \<and>
        (distinct (map fst (documents_index st)) \<longrightarrow>
           fst item \<notin> set (returned_ids lower st query m)))"
proof (intro conjI ballI impI)
  show "snd (search_documents lower st query m) = st"
    by (simp add: search_documents_def)
next
  fix item
  assume i: "item \<in> set (documents_index st)"
    and u: "\<forall>doc. files st (markdown_file (snd item)) \<noteq> Some (Regular doc)"
  from u show n: "search_pass lower st query item = None"
    by (simp add: search_pass_unreadable)
  from i show "item \<in> set (documents_index (snd (search_documents lower st query m)))"
    by (simp add: search_documents_def)
  assume "distinct (map fst (documents_index st))"
  from no_pass_not_returned[OF this i n]
  show "fst item \<notin> set (returned_ids lower st query m)" .
qed


lemma extract_keywords_Nil: "extract_keywords lower [] = []"
  by (simp add: extract_keywords_def split_ws_def)

lemma map_filter_Nil_iff: "List.map_filter f xs = [] \<longleftrightarrow> (\<forall>x\<in>set xs. f x = None)"
  by (induction xs) (auto split: option.splits)

lemma line_chunk_empty_query:
  "line_chunk lower [] [] ls i \<noteq> None \<longleftrightarrow> length (line_context ls i) > 10"
  by (auto simp: line_chunk_def line_matches_def str_in_Nil Let_def)

lemma line_chunks_empty_query:
  "line_chunks lower [] [] doc \<noteq> [] \<longleftrightarrow>
     (\<exists>i<length (split_sep [10] doc). length (line_context (split_sep [10] doc) i) > 10)"
proof -
  have "line_chunks lower [] [] doc \<noteq> [] \<longleftrightarrow>
     (\<exists>i\<in>set [0 ..< length (split_sep [10] doc)].
        line_chunk lower [] [] (split_sep [10] doc) i \<noteq> None)"
    by (simp add: line_chunks_def Let_def map_filter_Nil_iff)
  then show ?thesis
    unfolding line_chunk_empty_query by auto
qed

lemma relevant_chunks_empty_query:
  "relevant_chunks lower [] [] doc = line_chunks lower [] [] doc"
  by (simp add: relevant_chunks_def Let_def section_chunks_def count_matches_def)

lemma query_score_empty_query:
  assumes "lower [] = []"
  shows "query_score lower [] doc = 10"
  using assms
  by (simp add: query_score_def document_score_eq extract_keywords_Nil str_in_Nil count_matches_def)

text \<open>
  Claim C10: for the empty query (whose lowercase form is empty as well) the exact-phrase
  test succeeds on every content, so every index record with a readable artifact
  scores 10, and its pass emits a result exactly if the context of some line survives
  the length filter; all emitted results score 10, so search returns the emitted
  results in index order, cut to \<open>max_results\<close>: the empty query is not rejected.
\<close>

theorem empty_query_returns_every_readable_document:
  assumes "lower [] = []"
  shows "(\<forall>doc. str_in (lower []) (lower doc)) \<and>
     (\<forall>item\<in>set (documents_index st). \<forall>doc.
        files st (markdown_file (snd item)) = Some (Regular doc) \<longrightarrow>
          query_score lower [] doc = 10 \<and>
          (search_pass lower st [] item \<noteq> None \<longleftrightarrow>
             (\<exists>i<length (split_sep [10] doc). length (line_context (split_sep [10] doc) i) > 10)) \<and>
          (\<forall>r. search_pass lower st [] item = Some r \<longrightarrow> score r = 10)) \<and>
     fst (search_documents lower st [] m) = py_upto (emitted_results lower st []) m"
proof (intro conjI ballI allI impI)
  fix doc show "str_in (lower []) (lower doc)"
    using assms by (simp add: str_in_Nil)
next
  fix item :: "pystr \<times> doc_info" and doc
  assume f: "files st (markdown_file (snd item)) = Some (Regular doc)"
  show sc: "query_score lower [] doc = 10"
    by (rule query_score_empty_query[of lower, OF assms])
  show "search_pass lower st [] item \<noteq> None \<longleftrightarrow>
          (\<exists>i<length (split_sep [10] doc). length (line_context (split_sep [10] doc) i) > 10)"
    using assms
    by (simp add: search_pass_readable[OF f] sc extract_keywords_Nil
        relevant_chunks_empty_query line_chunks_empty_query)
  fix r assume "search_pass lower st [] item = Some r"
  from search_pass_Some[OF this] f sc show "score r = 10" by auto
next
  have "\<forall>r\<in>set (emitted_results lower st []). score r = 10"
  proof
    fix r assume "r \<in> set (emitted_results lower st [])"
    then obtain item where "search_pass lower st [] item = Some r"
      by (auto simp: emitted_results_passes set_map_filter)
    from search_pass_Some[OF this] query_score_empty_query[of lower, OF assms] show "score r = 10" by auto
  qed
  from sort_by_score_const[OF this]
  show "fst (search_documents lower st [] m) = py_upto (emitted_results lower st []) m"
    by (simp add: search_documents_def)
qed

section \<open>The example store\<close>

lemmas eval_defs = lit_def ascii_lower_def isspace_def strip_def strip_chars_def punctuation_def
  stop_words_def Let_def extract_keywords_def split_ws_def split_sep_def
  search_pass_def search_document_def document_score_def relevant_chunks_def line_chunks_def
  line_chunk_def line_matches_def line_context_def section_chunks_def count_matches_def
  ellipsis_def os_path_exists_def read_file_def example_info_def
  example_files_def example_store_def example_result_def query_score_def

lemma example_store_index: "documents_index example_store = example_index"
  by (simp add: example_store_def)

lemma example_distinct: "distinct (map fst (documents_index example_store))"
  by (simp add: example_store_def example_index_def lit_def)

lemma fox_d1: "search_pass ascii_lower example_store (lit ''fox'')
    (lit ''d1'', example_info ''fox.txt'' ''/md/d1.md'')
     = Some (example_result ''d1'' ''fox.txt'' ''The quick brown fox'' 13)"
  by (simp add: eval_defs)

lemma fox_d2: "search_pass ascii_lower example_store (lit ''fox'')
    (lit ''d2'', example_info ''dog.txt'' ''/md/d2.md'') = None"
  by (simp add: eval_defs)

lemma fox_d3: "search_pass ascii_lower example_store (lit ''fox'')
    (lit ''d3'', example_info ''run.txt'' ''/md/d3.md'')
     = Some (example_result ''d3'' ''run.txt'' ''The fox runs fast'' 13)"
  by (simp add: eval_defs)

lemma fox_d4: "search_pass ascii_lower example_store (lit ''fox'')
    (lit ''d4'', example_info ''old.txt'' ''/md/d4.md'') = None"
  by (simp add: eval_defs)

lemma fox_d5: "search_pass ascii_lower example_store (lit ''fox'')
    (lit ''d5'', example_info ''dir.txt'' ''/md/d5.md'') = None"
  by (simp add: eval_defs)

lemma emitted_fox: "emitted_results ascii_lower example_store (lit ''fox'') =
   [example_result ''d1'' ''fox.txt'' ''The quick brown fox'' 13,
    example_result ''d3'' ''run.txt'' ''The fox runs fast'' 13]"
  by (simp add: emitted_results_passes example_store_index example_index_def
      fox_d1 fox_d2 fox_d3 fox_d4 fox_d5)


lemma example_files_at:
  "files example_store (lit ''/md/d1.md'') = Some (Regular (lit ''The quick brown fox''))"
  "files example_store (lit ''/md/d2.md'') = Some (Regular (lit ''A lazy dog sleeps''))"
  "files example_store (lit ''/md/d3.md'') = Some (Regular (lit ''The fox runs fast''))"
  "files example_store (lit ''/md/d4.md'') = None"
  "files example_store (lit ''/md/d5.md'') = Some Directory"
  by (simp_all add: example_store_def example_files_def lit_def)

lemma example_markdown_file: "markdown_file (example_info name path) = lit path"
  by (simp add: example_info_def)

lemma keywords_fox_fox:
  "extract_keywords ascii_lower (ascii_lower (lit ''fox fox'')) = [lit ''fox'', lit ''fox'']"
  by (simp add: eval_defs)

lemma keywords_fox: "extract_keywords ascii_lower (ascii_lower (lit ''fox'')) = [lit ''fox'']"
  by (simp add: eval_defs)

lemma empty_d1: "search_pass ascii_lower example_store []
    (lit ''d1'', example_info ''fox.txt'' ''/md/d1.md'')
     = Some (example_result ''d1'' ''fox.txt'' ''The quick brown fox'' 10)"
  by (simp add: eval_defs)

lemma empty_d2: "search_pass ascii_lower example_store []
    (lit ''d2'', example_info ''dog.txt'' ''/md/d2.md'')
     = Some (example_result ''d2'' ''dog.txt'' ''A lazy dog sleeps'' 10)"
  by (simp add: eval_defs)

lemma empty_d3: "search_pass ascii_lower example_store []
    (lit ''d3'', example_info ''run.txt'' ''/md/d3.md'')
     = Some (example_result ''d3'' ''run.txt'' ''The fox runs fast'' 10)"
  by (simp add: eval_defs)

lemma empty_d4: "search_pass ascii_lower example_store []
    (lit ''d4'', example_info ''old.txt'' ''/md/d4.md'') = None"
  by (simp add: eval_defs)

lemma empty_d5: "search_pass ascii_lower example_store []
    (lit ''d5'', example_info ''dir.txt'' ''/md/d5.md'') = None"
  by (simp add: eval_defs)

lemma emitted_empty: "emitted_results ascii_lower example_store [] =
   [example_result ''d1'' ''fox.txt'' ''The quick brown fox'' 10,
    example_result ''d2'' ''dog.txt'' ''A lazy dog sleeps'' 10,
    example_result ''d3'' ''run.txt'' ''The fox runs fast'' 10]"
  by (simp add: emitted_results_passes example_store_index example_index_def
      empty_d1 empty_d2 empty_d3 empty_d4 empty_d5)

text \<open>The query \<open>fox fox\<close> on the content \<open>a fox\<close>: no exact phrase, two entries.\<close>

theorem keyword_score_counts_list_entries_witness:
  "query_score ascii_lower (lit ''fox fox'') (lit ''a fox'') = 0 + 3 * 2"
  using keyword_score_counts_list_entries[of ascii_lower "lit ''fox fox''" "lit ''a fox''"]
  by (simp add: keywords_fox_fox) (simp add: lit_def ascii_lower_def)

text \<open>
  The claim as stated fails there: the extractor returns \<open>fox\<close> twice, the score is
  6, and 3 per distinct matching keyword would be 3.
\<close>

theorem duplicate_keyword_counted_twice:
  "extract_keywords ascii_lower (ascii_lower (lit ''fox fox'')) = [lit ''fox'', lit ''fox''] \<and>
   \<not> str_in (ascii_lower (lit ''fox fox'')) (ascii_lower (lit ''a fox'')) \<and>
   query_score ascii_lower (lit ''fox fox'') (lit ''a fox'') = 6 \<and>
   3 * int (length (remdups (filter (\<lambda>keyword. str_in keyword (ascii_lower (lit ''a fox'')))
        (extract_keywords ascii_lower (ascii_lower (lit ''fox fox'')))))) = 3"
  by (simp add: keywords_fox_fox query_score_def document_score_eq count_matches_def)
     (simp add: lit_def ascii_lower_def)

text \<open>The query \<open>fox\<close> on the example store: \<open>d1\<close> holds the phrase, \<open>d2\<close> nothing.\<close>

theorem exact_phrase_scores_ten_no_match_not_returned_witness:
  "distinct (map fst (documents_index example_store)) \<and>
   (lit ''d1'', example_info ''fox.txt'' ''/md/d1.md'') \<in> set (documents_index example_store) \<and>
   files example_store (lit ''/md/d1.md'') = Some (Regular (lit ''The quick brown fox'')) \<and>
   str_in (ascii_lower (lit ''fox'')) (ascii_lower (lit ''The quick brown fox'')) \<and>
   query_score ascii_lower (lit ''fox'') (lit ''The quick brown fox'') \<ge> 10 \<and>
   (lit ''d2'', example_info ''dog.txt'' ''/md/d2.md'') \<in> set (documents_index example_store) \<and>
   files example_store (lit ''/md/d2.md'') = Some (Regular (lit ''A lazy dog sleeps'')) \<and>
   \<not> str_in (ascii_lower (lit ''fox'')) (ascii_lower (lit ''A lazy dog sleeps'')) \<and>
   lit ''d2'' \<notin> set (returned_ids ascii_lower example_store (lit ''fox'') 5)"
proof -
  let ?d1 = "(lit ''d1'', example_info ''fox.txt'' ''/md/d1.md'')"
  let ?d2 = "(lit ''d2'', example_info ''dog.txt'' ''/md/d2.md'')"
  have i1: "?d1 \<in> set (documents_index example_store)"
    and i2: "?d2 \<in> set (documents_index example_store)"
    by (simp_all add: example_store_index example_index_def)
  have f1: "files example_store (markdown_file (snd ?d1)) = Some (Regular (lit ''The quick brown fox''))"
    and f2: "files example_store (markdown_file (snd ?d2)) = Some (Regular (lit ''A lazy dog sleeps''))"
    by (simp_all add: example_markdown_file example_files_at)
  have p1: "str_in (ascii_lower (lit ''fox'')) (ascii_lower (lit ''The quick brown fox''))"
    by (simp add: lit_def ascii_lower_def)
  have p2: "\<not> str_in (ascii_lower (lit ''fox'')) (ascii_lower (lit ''A lazy dog sleeps''))"
    by (simp add: lit_def ascii_lower_def)
  have k2: "\<forall>keyword\<in>set (extract_keywords ascii_lower (ascii_lower (lit ''fox''))).
              \<not> str_in keyword (ascii_lower (lit ''A lazy dog sleeps''))"
    by (simp add: keywords_fox) (simp add: lit_def ascii_lower_def)
  from exact_phrase_scores_ten_no_match_not_returned[OF example_distinct i1 f1,
      of ascii_lower "lit ''fox''" 5] p1
  have a: "query_score ascii_lower (lit ''fox'') (lit ''The quick brown fox'') \<ge> 10" by blast
  from exact_phrase_scores_ten_no_match_not_returned[OF example_distinct i2 f2,
      of ascii_lower "lit ''fox''" 5] p2 k2
  have b: "lit ''d2'' \<notin> set (returned_ids ascii_lower example_store (lit ''fox'') 5)" by simp
  from example_distinct i1 i2 f1 f2 p1 p2 a b show ?thesis
    by (simp add: example_markdown_file)
qed

text \<open>The query \<open>fox\<close> with \<open>max_results = 1\<close>.\<close>

theorem search_results_ranked_witness:
  "(0::int) \<le> 1 \<and>
   sorted_wrt (\<lambda>a b. score a \<ge> score b)
     (fst (search_documents ascii_lower example_store (lit ''fox'') 1)) \<and>
   int (length (fst (search_documents ascii_lower example_store (lit ''fox'') 1))) \<le> 1"
  using search_results_ranked[of ascii_lower example_store "lit ''fox''" 1] by simp

text \<open>
  The claim as stated fails for a negative \<open>max_results\<close>: \<open>results[:-1]\<close> drops
  the last of the two results and returns one, which is more than \<open>-1\<close>.
\<close>

theorem negative_max_results_exceeded:
  "fst (search_documents ascii_lower example_store (lit ''fox'') (- 1))
     = [example_result ''d1'' ''fox.txt'' ''The quick brown fox'' 13] \<and>
   \<not> int (length (fst (search_documents ascii_lower example_store (lit ''fox'') (- 1)))) \<le> - 1"
  by (simp add: search_documents_def emitted_fox sort_by_score_def py_upto_def py_adjust_def
      example_result_def)

text \<open>The records \<open>d4\<close> (file missing) and \<open>d5\<close> (path is a directory).\<close>

theorem search_keeps_index_and_skips_unreadable_witness:
  "distinct (map fst (documents_index example_store)) \<and>
   (lit ''d4'', example_info ''old.txt'' ''/md/d4.md'') \<in> set (documents_index example_store) \<and>
   files example_store (lit ''/md/d4.md'') = None \<and>
   (lit ''d5'', example_info ''dir.txt'' ''/md/d5.md'') \<in> set (documents_index example_store) \<and>
   files example_store (lit ''/md/d5.md'') = Some Directory \<and>
   snd (search_documents ascii_lower example_store [] 5) = example_store \<and>
   lit ''d4'' \<notin> set (returned_ids ascii_lower example_store [] 5) \<and>
   lit ''d5'' \<notin> set (returned_ids ascii_lower example_store [] 5) \<and>
   (lit ''d4'', example_info ''old.txt'' ''/md/d4.md'')
      \<in> set (documents_index (snd (search_documents ascii_lower example_store [] 5))) \<and>
   (lit ''d5'', example_info ''dir.txt'' ''/md/d5.md'')
      \<in> set (documents_index (snd (search_documents ascii_lower example_store [] 5)))"
proof -
  let ?d4 = "(lit ''d4'', example_info ''old.txt'' ''/md/d4.md'')"
  let ?d5 = "(lit ''d5'', example_info ''dir.txt'' ''/md/d5.md'')"
  have i4: "?d4 \<in> set (documents_index example_store)"
    and i5: "?d5 \<in> set (documents_index example_store)"
    by (simp_all add: example_store_index example_index_def)
  have u4: "\<forall>doc. files example_store (markdown_file (snd ?d4)) \<noteq> Some (Regular doc)"
    and u5: "\<forall>doc. files example_store (markdown_file (snd ?d5)) \<noteq> Some (Regular doc)"
    by (simp_all add: example_markdown_file example_files_at)
  note inst = search_keeps_index_and_skips_unreadable[of ascii_lower example_store "[]" 5]
  from inst have s: "snd (search_documents ascii_lower example_store [] 5) = example_store"
    by blast
  from inst i4 u4 example_distinct
  have r4: "lit ''d4'' \<notin> set (returned_ids ascii_lower example_store [] 5)"
    and k4: "?d4 \<in> set (documents_index (snd (search_documents ascii_lower example_store [] 5)))"
    by auto
  from inst i5 u5 example_distinct
  have r5: "lit ''d5'' \<notin> set (returned_ids ascii_lower example_store [] 5)"
    and k5: "?d5 \<in> set (documents_index (snd (search_documents ascii_lower example_store [] 5)))"
    by auto
  from example_distinct i4 i5 s r4 r5 k4 k5 show ?thesis
    by (simp add: example_files_at)
qed

text \<open>The empty query on the example store, with \<open>max_results\<close> 2 and 5.\<close>

theorem empty_query_returns_every_readable_document_witness:
  "ascii_lower [] = [] \<and>
   query_score ascii_lower [] (lit ''A lazy dog sleeps'') = 10 \<and>
   fst (search_documents ascii_lower example_store [] 2)
     = [example_result ''d1'' ''fox.txt'' ''The quick brown fox'' 10,
        example_result ''d2'' ''dog.txt'' ''A lazy dog sleeps'' 10] \<and>
   fst (search_documents ascii_lower example_store [] 5)
     = [example_result ''d1'' ''fox.txt'' ''The quick brown fox'' 10,
        example_result ''d2'' ''dog.txt'' ''A lazy dog sleeps'' 10,
        example_result ''d3'' ''run.txt'' ''The fox runs fast'' 10]"
proof -
  have l: "ascii_lower [] = []" by (simp add: ascii_lower_def)
  let ?d2 = "(lit ''d2'', example_info ''dog.txt'' ''/md/d2.md'')"
  have i2: "?d2 \<in> set (documents_index example_store)"
    by (simp add: example_store_index example_index_def)
  have f2: "files example_store (markdown_file (snd ?d2)) = Some (Regular (lit ''A lazy dog sleeps''))"
    by (simp add: example_markdown_file example_files_at)
  from empty_query_returns_every_readable_document[where lower=ascii_lower and st=example_store and m=2, OF l] i2 f2
  have a: "query_score ascii_lower [] (lit ''A lazy dog sleeps'') = 10"
    and b: "fst (search_documents ascii_lower example_store [] 2)
              = py_upto (emitted_results ascii_lower example_store []) 2"
    by blast+
  from empty_query_returns_every_readable_document[where lower=ascii_lower and st=example_store and m=5, OF l]
  have c: "fst (search_documents ascii_lower example_store [] 5)
              = py_upto (emitted_results ascii_lower example_store []) 5"
    by blast
  from l a b c show ?thesis
    by (simp add: emitted_empty py_upto_def py_adjust_def)
qed

section \<open>Properties of deletion and listing\<close>

lemma save_documents_index_keeps:
  "documents_index (save_documents_index st) = documents_index st"
  "files (save_documents_index st) = files st"
  by (simp_all add: save_documents_index_def)

lemma list_document_id:
  assumes "list_document fs item = Some d"
  shows "listed_id d = fst item"
  using assms
  by (cases "read_file fs (markdown_file (snd item))")
     (auto simp: list_document_def Let_def split: if_splits)

lemma listed_ids_in_index:
  "listed_id ` set (fst (get_all_documents st)) \<subseteq> fst ` set (documents_index st)"
  by (auto simp: get_all_documents_def set_map_filter dest!: list_document_id)

lemma delete_document_absent:
  assumes "map_of (documents_index st) doc_id = None"
  shows "delete_document st doc_id = (False, st)"
  using assms by (simp add: delete_document_def)

lemma delete_document_directory:
  assumes "map_of (documents_index st) doc_id = Some info"
    and "files st (markdown_file info) = Some Directory"
  shows "delete_document st doc_id = (False, st)"
  using assms by (simp add: delete_document_def os_path_exists_def os_remove_def)

lemma delete_document_removable:
  assumes "map_of (documents_index st) doc_id = Some info"
    and "files st (markdown_file info) \<noteq> Some Directory"
  shows "delete_document st doc_id =
     (True, save_documents_index
        (st\<lparr>files := (files st)(markdown_file info := None),
            documents_index := AList.delete doc_id (documents_index st)\<rparr>))"
proof (cases "files st (markdown_file info)")
  case None
  then have "(files st)(markdown_file info := None) = files st" by auto
  with None assms(1) show ?thesis
    by (simp add: delete_document_def os_path_exists_def)
next
  case (Some e)
  with assms show ?thesis
    by (cases e) (simp_all add: delete_document_def os_path_exists_def os_remove_def)
qed

text \<open>
  Claim C8, as amended: for every store state, deleting an id that is not in the index
  returns false and leaves the store unchanged.  Deleting an id that is in the index,
  when its artifact is absent or can be removed, returns true, removes the artifact if
  it is present, removes the index entry, and a subsequent listing does not include the
  id.  When removing the artifact raises (the path holds a directory), deleting returns
  false and leaves the index and the files unchanged.
\<close>

theorem delete_document_effect:
  "(map_of (documents_index st) doc_id = None \<longrightarrow> delete_document st doc_id = (False, st)) \<and>
   (\<forall>info. map_of (documents_index st) doc_id = Some info \<longrightarrow>
      (files st (markdown_file info) \<noteq> Some Directory \<longrightarrow>
         fst (delete_document st doc_id) = True \<and>
         files (snd (delete_document st doc_id)) = (files st)(markdown_file info := None) \<and>
         documents_index (snd (delete_document st doc_id))
           = AList.delete doc_id (documents_index st) \<and>
         doc_id \<notin> fst ` set (documents_index (snd (delete_document st doc_id))) \<and>
         doc_id \<notin> listed_id ` set (fst (get_all_documents (snd (delete_document st doc_id))))) \<and>
      (files st (markdown_file info) = Some Directory \<longrightarrow>
         delete_document st doc_id = (False, st)))"
proof (intro conjI allI impI)
  assume "map_of (documents_index st) doc_id = None"
  then show "delete_document st doc_id = (False, st)" by (rule delete_document_absent)
next
  fix info
  assume m: "map_of (documents_index st) doc_id = Some info"
    and f: "files st (markdown_file info) \<noteq> Some Directory"
  note d = delete_document_removable[OF m f]
  show "fst (delete_document st doc_id) = True" by (simp add: d)
  show "files (snd (delete_document st doc_id)) = (files st)(markdown_file info := None)"
    by (simp add: d save_documents_index_keeps)
  show i: "documents_index (snd (delete_document st doc_id))
           = AList.delete doc_id (documents_index st)"
    by (simp add: d save_documents_index_keeps)
  show k: "doc_id \<notin> fst ` set (documents_index (snd (delete_document st doc_id)))"
    unfolding i by (rule delete_notin_dom)
  from k listed_ids_in_index[of "snd (delete_document st doc_id)"]
  show "doc_id \<notin> listed_id ` set (fst (get_all_documents (snd (delete_document st doc_id))))"
    by blast
next
  fix info
  assume "map_of (documents_index st) doc_id = Some info"
    and "files st (markdown_file info) = Some Directory"
  then show "delete_document st doc_id = (False, st)" by (rule delete_document_directory)
qed

lemma example_lookup:
  "map_of (documents_index example_store) (lit ''d1'') = Some (example_info ''fox.txt'' ''/md/d1.md'')"
  "map_of (documents_index example_store) (lit ''d4'') = Some (example_info ''old.txt'' ''/md/d4.md'')"
  "map_of (documents_index example_store) (lit ''d5'') = Some (example_info ''dir.txt'' ''/md/d5.md'')"
  "map_of (documents_index example_store) (lit ''zz'') = None"
  by (simp_all add: example_store_index example_index_def lit_def)

text \<open>
  Deleting the unknown id \<open>zz\<close>, the record \<open>d1\<close> (artifact present) and the record
  \<open>d4\<close> (artifact absent) from the example store.
\<close>

theorem delete_document_effect_witness:
  "map_of (documents_index example_store) (lit ''zz'') = None \<and>
   delete_document example_store (lit ''zz'') = (False, example_store) \<and>
   map_of (documents_index example_store) (lit ''d1'')
     = Some (example_info ''fox.txt'' ''/md/d1.md'') \<and>
   files example_store (lit ''/md/d1.md'') = Some (Regular (lit ''The quick brown fox'')) \<and>
   fst (delete_document example_store (lit ''d1'')) = True \<and>
   files (snd (delete_document example_store (lit ''d1''))) (lit ''/md/d1.md'') = None \<and>
   map fst (documents_index (snd (delete_document example_store (lit ''d1''))))
     = [lit ''d2'', lit ''d3'', lit ''d4'', lit ''d5''] \<and>
   lit ''d1'' \<notin> listed_id ` set (fst (get_all_documents (snd (delete_document example_store (lit ''d1''))))) \<and>
   map_of (documents_index example_store) (lit ''d4'')
     = Some (example_info ''old.txt'' ''/md/d4.md'') \<and>
   files example_store (lit ''/md/d4.md'') = None \<and>
   fst (delete_document example_store (lit ''d4'')) = True"
proof -
  note inst = delete_document_effect[of example_store]
  have f1: "files example_store (markdown_file (example_info ''fox.txt'' ''/md/d1.md'')) \<noteq> Some Directory"
    and f4: "files example_store (markdown_file (example_info ''old.txt'' ''/md/d4.md'')) \<noteq> Some Directory"
    by (simp_all add: example_markdown_file example_files_at)
  from inst[of "lit ''zz''"] example_lookup(4)
  have a: "delete_document example_store (lit ''zz'') = (False, example_store)" by blast
  from inst[of "lit ''d1''"] example_lookup(1) f1
  have b: "fst (delete_document example_store (lit ''d1'')) = True"
    and c: "files (snd (delete_document example_store (lit ''d1'')))
              = (files example_store)(markdown_file (example_info ''fox.txt'' ''/md/d1.md'') := None)"
    and e: "documents_index (snd (delete_document example_store (lit ''d1'')))
              = AList.delete (lit ''d1'') (documents_index example_store)"
    and g: "lit ''d1'' \<notin> listed_id ` set (fst (get_all_documents (snd (delete_document example_store (lit ''d1'')))))"
    by blast+
  from inst[of "lit ''d4''"] example_lookup(2) f4
  have h: "fst (delete_document example_store (lit ''d4'')) = True" by blast
  have e': "map fst (AList.delete (lit ''d1'') (documents_index example_store))
      = [lit ''d2'', lit ''d3'', lit ''d4'', lit ''d5'']"
    by (simp add: example_store_index example_index_def AList.delete_eq lit_def)
  from a b c e g h e' example_lookup example_files_at show ?thesis
    by (simp add: example_markdown_file)
qed

text \<open>
  The claim as stated fails for the record \<open>d5\<close>, which is in the index: its path is a
  directory, \<open>os.remove\<close> raises, and deleting returns false with the record kept.
\<close>

theorem delete_fails_on_unremovable_artifact:
  "map_of (documents_index example_store) (lit ''d5'')
     = Some (example_info ''dir.txt'' ''/md/d5.md'') \<and>
   files example_store (lit ''/md/d5.md'') = Some Directory \<and>
   delete_document example_store (lit ''d5'') = (False, example_store)"
  by (simp add: example_lookup example_files_at delete_document_def example_markdown_file
      os_path_exists_def os_remove_def)

section \<open>Properties of the upload\<close>

lemma digits_of_numeral:
  "digits_of (numeral k) n =
     (if n < 10 then [48 + n] else digits_of (pred_numeral k) (n div 10) @ [48 + n mod 10])"
  by (simp add: numeral_eq_Suc)


text \<open>
  Claim C6: for every upload whose filename has a disallowed extension or whose size
  exceeds the configured maximum, ingestion raises with the message of the validation,
  and the store and the AI service are the ones it was given: no raw file is written,
  no artifact is rendered, and the document index is unchanged.
\<close>

theorem invalid_upload_changes_nothing:
  assumes "file_extension lower fname \<notin> set (allowed_extensions_list S)
           \<or> int (length file_content) > max_file_size S"
  shows "upload_document lower X S d st ai file_content fname =
           Some (Inl (ValueError (snd (validate_file lower S fname (length file_content)))), st, ai)"
  using assms
  by (auto simp: upload_document_def validate_file_def Let_def)

lemma default_extensions:
  "allowed_extensions_list default_settings = [lit ''pdf'', lit ''txt'', lit ''docx'', lit ''md'']"
  by (simp add: allowed_extensions_list_def default_settings_def split_sep_def strip_def
      isspace_def lit_def)

lemma suffix_exe: "file_extension ascii_lower (lit ''notes.EXE'') = lit ''exe''"
  by (simp add: file_extension_def path_suffix_def path_name_def split_sep_def lit_def
      ascii_lower_def lstrip_chars_def Let_def rfind_char_def py_adjust_def)


text \<open>
  An upload of \<open>notes.EXE\<close> under the default settings, and one of five bytes under a
  maximum size of four.
\<close>

theorem invalid_upload_changes_nothing_witness:
  "file_extension ascii_lower (lit ''notes.EXE'')
     \<notin> set (allowed_extensions_list default_settings) \<and>
   upload_document ascii_lower example_extractors default_settings example_draws
       example_store example_ai (lit ''MZ'') (lit ''notes.EXE'')
     = Some (Inl (ValueError
               (lit ''File type .exe not allowed. Allowed types: pdf, txt, docx, md'')),
             example_store, example_ai) \<and>
   int (length (lit ''12345'')) > max_file_size small_upload_settings \<and>
   upload_document ascii_lower example_extractors small_upload_settings example_draws
       example_store example_ai (lit ''12345'') (lit ''a.txt'')
     = Some (Inl (ValueError (lit ''File size 5 exceeds maximum allowed size 4'')),
             example_store, example_ai)"
proof -
  have a: "file_extension ascii_lower (lit ''notes.EXE'')
             \<notin> set (allowed_extensions_list default_settings)"
    by (simp add: suffix_exe default_extensions) (simp add: lit_def)
  have b: "int (length (lit ''12345'')) > max_file_size small_upload_settings"
    by (simp add: small_upload_settings_def default_settings_def lit_def)
  have m1: "snd (validate_file ascii_lower default_settings (lit ''notes.EXE'') (length (lit ''MZ'')))
      = lit ''File type .exe not allowed. Allowed types: pdf, txt, docx, md''"
    using a by (simp add: validate_file_def Let_def suffix_exe default_extensions) (simp add: lit_def)
  have s2: "file_extension ascii_lower (lit ''a.txt'') = lit ''txt''"
    by (simp add: file_extension_def path_suffix_def path_name_def split_sep_def lit_def
        ascii_lower_def lstrip_chars_def Let_def rfind_char_def py_adjust_def)
  have e2: "allowed_extensions_list small_upload_settings
      = [lit ''pdf'', lit ''txt'', lit ''docx'', lit ''md'']"
    by (simp add: allowed_extensions_list_def small_upload_settings_def default_settings_def
        split_sep_def strip_def isspace_def lit_def)
  have m2: "snd (validate_file ascii_lower small_upload_settings (lit ''a.txt'') (length (lit ''12345'')))
      = lit ''File size 5 exceeds maximum allowed size 4''"
    by (simp add: validate_file_def Let_def s2 e2)
       (simp add: lit_def small_upload_settings_def default_settings_def str_of_nat_def
          str_of_int_def digits_of_numeral)
  from invalid_upload_changes_nothing[of ascii_lower "lit ''notes.EXE''" default_settings
         "lit ''MZ''" example_extractors example_draws example_store example_ai] a
       invalid_upload_changes_nothing[of ascii_lower "lit ''a.txt''" small_upload_settings
         "lit ''12345''" example_extractors example_draws example_store example_ai] b
       m1 m2
  show ?thesis by simp
qed

text \<open>
  An upload that passes the validation is stored: the raw file is written under the
  uploads directory, the artifact is rendered under the markdown directory, the record
  is appended to the index, and the summary is asked of the client.
\<close>

lemma hello_extension: "file_extension ascii_lower (lit ''hello.txt'') = lit ''txt''"
  by (simp add: file_extension_def path_suffix_def path_name_def split_sep_def lit_def
      ascii_lower_def lstrip_chars_def Let_def rfind_char_def py_adjust_def)

lemma hello_valid:
  "validate_file ascii_lower default_settings (lit ''hello.txt'') (length (lit ''A fox.''))
     = (True, lit ''Valid file'')"
  by (simp add: validate_file_def Let_def hello_extension default_extensions)
     (simp add: lit_def default_settings_def)

lemma hello_saved:
  "save_file default_settings (files example_store) (lit ''f-1'') (lit ''A fox.'') (lit ''hello.txt'')
     = Inr (lit ''/app/data/uploads/f-1_hello.txt'',
            (files example_store)(lit ''/app/data/uploads/f-1_hello.txt'' \<mapsto> Regular (lit ''A fox.'')))"
  by (simp add: save_file_def Let_def os_path_join_def default_settings_def write_file_def
      example_store_def example_files_def lit_def suffix_to_prefix)

lemma hello_extracted:
  "extract_text_from_file ascii_lower example_extractors
      ((files example_store)(lit ''/app/data/uploads/f-1_hello.txt'' \<mapsto> Regular (lit ''A fox.'')))
      (lit ''/app/data/uploads/f-1_hello.txt'') = Inr (lit ''A fox.'')"
  by (simp add: extract_text_from_file_def Let_def path_suffix_def path_name_def split_sep_def
      lit_def ascii_lower_def rfind_char_def py_adjust_def extract_from_txt_def read_file_def
      example_extractors_def)

lemma hello_chunks:
  "split_text_into_chunks default_settings (lit ''A fox.'') = Some [lit ''A fox.'']"
  by (simp add: split_text_into_chunks_def default_settings_def lit_def)

lemma hello_markdown_path:
  "os_path_join (markdown_dir default_settings) (lit ''d-9'' @ lit ''.md'')
     = lit ''/app/data/markdown/d-9.md''"
  by (simp add: markdown_dir_def os_path_join_def default_settings_def lit_def suffix_to_prefix)

lemma hello_summary:
  "fst (summarize_document example_ai (lit ''A fox.'') 200) = lit ''An answer.'' \<and>
   length (requests (snd (summarize_document example_ai (lit ''A fox.'') 200))) = 1"
  by (simp add: summarize_document_def Let_def example_ai_def generate_with_openai_def)

lemma valid_upload_is_stored:
  "\<exists>r st' ai'.
     upload_document ascii_lower example_extractors default_settings example_draws
         example_store example_ai (lit ''A fox.'') (lit ''hello.txt'') = Some (Inr r, st', ai') \<and>
     response_id r = lit ''d-9'' \<and> summary r = lit ''An answer.'' \<and>
     map fst (documents_index st') = map fst example_index @ [lit ''d-9''] \<and>
     map_of (documents_index st') (lit ''d-9'') \<noteq> None \<and>
     files st' (lit ''/app/data/uploads/f-1_hello.txt'') = Some (Regular (lit ''A fox.'')) \<and>
     files st' (lit ''/app/data/markdown/d-9.md'')
       = Some (Regular (render_markdown (lit ''hello.txt'') (lit ''d-9'')
                 (lit ''2024-05-02T09:00:01'') (lit ''A fox.'') [lit ''A fox.''])) \<and>
     length (requests ai') = 1"
proof -
  let ?fs1 = "(files example_store)(lit ''/app/data/uploads/f-1_hello.txt'' \<mapsto> Regular (lit ''A fox.''))"
  have w: "write_file ?fs1 (lit ''/app/data/markdown/d-9.md'') c
      = Inr (?fs1(lit ''/app/data/markdown/d-9.md'' \<mapsto> Regular c))" for c
    by (simp add: write_file_def example_store_def example_files_def lit_def)
  have d: "uuid_file example_draws = lit ''f-1''" "uuid_document example_draws = lit ''d-9''"
    "now_rendered example_draws = lit ''2024-05-02T09:00:01''"
    by (simp_all add: example_draws_def)
  have i: "map fst (AList.update (lit ''d-9'') v example_index)
      = map fst example_index @ [lit ''d-9'']" for v
    by (simp add: example_index_def lit_def)
  have p: "lit ''/app/data/uploads/f-1_hello.txt'' \<noteq> lit ''/app/data/markdown/d-9.md''"
    by (simp add: lit_def)
  obtain summ ai' where s: "summarize_document example_ai (lit ''A fox.'') 200 = (summ, ai')"
    by (cases "summarize_document example_ai (lit ''A fox.'') 200")
  with hello_summary have s': "summ = lit ''An answer.''" "length (requests ai') = 1" by simp_all
  show ?thesis
    using p s'
    by (simp add: upload_document_def hello_valid hello_saved hello_extracted d s
        add_document_def hello_chunks hello_markdown_path w Let_def
        save_documents_index_def example_store_index i update_conv' del: fun_upd_apply)
       (simp add: example_store_def)
qed

section \<open>Properties of the answer generation\<close>

lemma context_parts_blank:
  assumes "\<forall>doc\<in>set docs. strip (content doc) = []"
  shows "context_parts i docs = []"
  using assms by (induction docs arbitrary: i) (simp_all add: Let_def)

text \<open>
  Claim C7: for every query whose retrieval step yields an empty context (no context
  documents, or only documents whose content is empty or blank), the answer generation
  returns the fixed message and leaves the service as it was: no request is sent to the
  client.
\<close>

theorem blank_context_never_calls_llm:
  assumes "\<forall>doc\<in>set docs. strip (content doc) = []"
  shows "generate_response ai query docs max_tokens = (no_information_message, ai)"
  using context_parts_blank[OF assms]
  by (simp add: generate_response_def prepare_context_def)

text \<open>No documents, and two documents with an empty and a blank content.\<close>

theorem blank_context_never_calls_llm_witness:
  "generate_response example_ai (lit ''fox?'') [] 1000 = (no_information_message, example_ai) \<and>
   strip (content (example_result ''d1'' ''fox.txt'' [] 10)) = [] \<and>
   strip (content (example_result ''d2'' ''dog.txt'' ''  '' 10)) = [] \<and>
   generate_response example_ai (lit ''fox?'')
       [example_result ''d1'' ''fox.txt'' [] 10, example_result ''d2'' ''dog.txt'' ''  '' 10] 1000
     = (no_information_message, example_ai) \<and>
   requests (snd (generate_response example_ai (lit ''fox?'')
       [example_result ''d1'' ''fox.txt'' [] 10, example_result ''d2'' ''dog.txt'' ''  '' 10] 1000))
     = []"
proof -
  have a: "strip (content (example_result ''d1'' ''fox.txt'' [] 10)) = []"
    and b: "strip (content (example_result ''d2'' ''dog.txt'' ''  '' 10)) = []"
    by (simp_all add: example_result_def lit_def strip_def isspace_def)
  from blank_context_never_calls_llm[of "[]" example_ai "lit ''fox?''" 1000]
       blank_context_never_calls_llm[of "[example_result ''d1'' ''fox.txt'' [] 10,
           example_result ''d2'' ''dog.txt'' ''  '' 10]" example_ai "lit ''fox?''" 1000] a b
  show ?thesis by (simp add: example_ai_def)
qed

text \<open>With a context that is not blank the client is called, once.\<close>

lemma context_calls_llm:
  "length (requests (snd (generate_response example_ai (lit ''fox?'')
       [example_result ''d1'' ''fox.txt'' ''The quick brown fox'' 13] 1000))) = 1 \<and>
   fst (generate_response example_ai (lit ''fox?'')
       [example_result ''d1'' ''fox.txt'' ''The quick brown fox'' 13] 1000) = lit ''An answer.''"
proof -
  have c: "prepare_context [example_result ''d1'' ''fox.txt'' ''The quick brown fox'' 13]
      = lit ''['' @ [26469, 28304] @ lit '' 1: fox.txt]'' @ [10] @ lit ''The quick brown fox''"
    by (simp add: prepare_context_def example_result_def Let_def strip_def isspace_def lit_def
        str_of_nat_def)
  have n: "strip (lit ''['' @ [26469, 28304] @ lit '' 1: fox.txt]'' @ [10] @ lit ''The quick brown fox'') \<noteq> []"
    by (simp add: strip_def isspace_def lit_def)
  show ?thesis
    using n by (simp add: generate_response_def c Let_def example_ai_def generate_with_openai_def)
qed

end
